theory Spec2Isabelle
  imports Main
begin

section \<open>JavaScript values\<close>

text \<open>
  The two router variants of the repository (the two-stage pipeline with semantic search,
  and the unified single-call pipeline) work on JSON values that come back from the
  reasoning service and from the store. A value is modelled by \<open>jsval\<close>.
  Numbers are integers (JavaScript prints an integer below \<open>10^21\<close> in plain decimal,
  which is what \<open>digits\<close> does); strings are lists of 8-bit characters, read as the code
  points U+0000 to U+00FF.
\<close>

datatype jsval =
    JUndefined
  | JNull
  | JBool bool
  | JNum int
  | JStr string
  | JArr "jsval list"
  | JObj "(string \<times> jsval) list"

type_synonym jsobj = "(string \<times> jsval) list"

datatype error = Error string | TypeError string | SyntaxError string

text \<open>Property access \<open>obj.k\<close> / \<open>obj[k]\<close>: a missing property reads as \<open>undefined\<close>.\<close>

definition getProp :: "jsobj \<Rightarrow> string \<Rightarrow> jsval" where
  "getProp obj k = (case map_of obj k of Some v \<Rightarrow> v | None \<Rightarrow> JUndefined)"

text \<open>Truthiness, as tested by \<open>if (x)\<close>, \<open>!x\<close>, \<open>x || y\<close>, \<open>x && y\<close>, \<open>filter(Boolean)\<close>.\<close>

fun truthy :: "jsval \<Rightarrow> bool" where
  "truthy JUndefined = False"
| "truthy JNull = False"
| "truthy (JBool b) = b"
| "truthy (JNum n) = (n \<noteq> 0)"
| "truthy (JStr s) = (s \<noteq> [])"
| "truthy (JArr xs) = True"
| "truthy (JObj kvs) = True"

text \<open>\<open>a || b\<close> and \<open>a ?? b\<close>.\<close>

definition js_or :: "jsval \<Rightarrow> jsval \<Rightarrow> jsval" where
  "js_or a b = (if truthy a then a else b)"

definition js_nullish :: "jsval \<Rightarrow> jsval \<Rightarrow> jsval" where
  "js_nullish a b = (if a = JNull \<or> a = JUndefined then b else a)"

text \<open>\<open>Array.prototype.join\<close> on strings.\<close>

fun join :: "string \<Rightarrow> string list \<Rightarrow> string" where
  "join sep [] = []"
| "join sep [x] = x"
| "join sep (x # y # ys) = x @ sep @ join sep (y # ys)"

fun digits :: "nat \<Rightarrow> string" where
  "digits n = (if n < 10 then [''0123456789'' ! n]
               else digits (n div 10) @ [''0123456789'' ! (n mod 10)])"

definition show_int :: "int \<Rightarrow> string" where
  "show_int n = (if n < 0 then ''-'' @ digits (nat (- n)) else digits (nat n))"

text \<open>\<open>String(x)\<close>, which is also what a template literal \<open>${x}\<close> produces.\<close>

fun toString :: "jsval \<Rightarrow> string" where
  "toString JUndefined = ''undefined''"
| "toString JNull = ''null''"
| "toString (JBool b) = (if b then ''true'' else ''false'')"
| "toString (JNum n) = show_int n"
| "toString (JStr s) = s"
| "toString (JArr xs) =
     join '','' (map (\<lambda>x. if x = JNull \<or> x = JUndefined then [] else toString x) xs)"
| "toString (JObj kvs) = ''[object Object]''"

text \<open>
  \<open>String.prototype.trim\<close>: the white space of JavaScript below U+0100 is
  TAB, LF, VT, FF, CR, SPACE and NO-BREAK SPACE.
\<close>

definition ws_chars :: "char list" where
  "ws_chars = [CHR 0x09, CHR 0x0A, CHR 0x0B, CHR 0x0C, CHR 0x0D, CHR 0x20, CHR 0xA0]"

definition is_space :: "char \<Rightarrow> bool" where
  "is_space c = (c \<in> set ws_chars)"

definition trim :: "string \<Rightarrow> string" where
  "trim s = rev (dropWhile is_space (rev (dropWhile is_space s)))"

text \<open>
  \<open>String.prototype.toLowerCase\<close> below U+0100: A to Z, and the Latin-1 capitals
  U+00C0 to U+00DE without the multiplication sign U+00D7, each move up by 32.
\<close>

definition upper_chars :: "char list" where
  "upper_chars = ''ABCDEFGHIJKLMNOPQRSTUVWXYZ'' @
     [CHR 0xC0, CHR 0xC1, CHR 0xC2, CHR 0xC3, CHR 0xC4, CHR 0xC5, CHR 0xC6, CHR 0xC7,
      CHR 0xC8, CHR 0xC9, CHR 0xCA, CHR 0xCB, CHR 0xCC, CHR 0xCD, CHR 0xCE, CHR 0xCF,
      CHR 0xD0, CHR 0xD1, CHR 0xD2, CHR 0xD3, CHR 0xD4, CHR 0xD5, CHR 0xD6,
      CHR 0xD8, CHR 0xD9, CHR 0xDA, CHR 0xDB, CHR 0xDC, CHR 0xDD, CHR 0xDE]"

definition lower_chars :: "char list" where
  "lower_chars = ''abcdefghijklmnopqrstuvwxyz'' @
     [CHR 0xE0, CHR 0xE1, CHR 0xE2, CHR 0xE3, CHR 0xE4, CHR 0xE5, CHR 0xE6, CHR 0xE7,
      CHR 0xE8, CHR 0xE9, CHR 0xEA, CHR 0xEB, CHR 0xEC, CHR 0xED, CHR 0xEE, CHR 0xEF,
      CHR 0xF0, CHR 0xF1, CHR 0xF2, CHR 0xF3, CHR 0xF4, CHR 0xF5, CHR 0xF6,
      CHR 0xF8, CHR 0xF9, CHR 0xFA, CHR 0xFB, CHR 0xFC, CHR 0xFD, CHR 0xFE]"

definition lower_char :: "char \<Rightarrow> char" where
  "lower_char c = (case map_of (zip upper_chars lower_chars) c of Some d \<Rightarrow> d | None \<Rightarrow> c)"

definition toLowerCase :: "string \<Rightarrow> string" where
  "toLowerCase s = map lower_char s"

text \<open>
  \<open>Array.prototype.find\<close> on an array of strings: the first element that satisfies the
  predicate, \<open>undefined\<close> when there is none.
\<close>

definition find_js :: "(string \<Rightarrow> bool) \<Rightarrow> string list \<Rightarrow> jsval" where
  "find_js P xs = (case find P xs of Some x \<Rightarrow> JStr x | None \<Rightarrow> JUndefined)"

text \<open>\<open>Array.prototype.includes\<close> on an array of strings.\<close>

definition includes_js :: "string list \<Rightarrow> jsval \<Rightarrow> bool" where
  "includes_js xs v = (case v of JStr s \<Rightarrow> s \<in> set xs | _ \<Rightarrow> False)"

section \<open>Constants and string utilities of the routers\<close>

definition ALLOWED_PARAMS :: "string list" where
  "ALLOWED_PARAMS =
     [''level_number'', ''room_name'', ''room_type'', ''system_name'', ''system_type'',
      ''manufacturer'', ''model_name'', ''type_name'', ''family_name'', ''omniclass_title'']"

text \<open>\<open>ALLOWED_PARAMS.has(v)\<close>: set membership by strict equality, so only a string can be in.\<close>

definition ALLOWED_PARAMS_has :: "jsval \<Rightarrow> bool" where
  "ALLOWED_PARAMS_has v = (case v of JStr s \<Rightarrow> s \<in> set ALLOWED_PARAMS | _ \<Rightarrow> False)"

definition SAMPLE_KEYS :: "string list" where
  "SAMPLE_KEYS =
     [''level_number'', ''room_name'', ''room_type'', ''system_name'', ''system_type'',
      ''manufacturer'', ''model_name'', ''omniclass_title'', ''type_name'', ''family_name'']"

definition DEFAULT_LIMIT :: jsval where
  "DEFAULT_LIMIT = JNum 20"

definition DEFAULT_TOP_K :: jsval where
  "DEFAULT_TOP_K = JNum 100"

text \<open>\<open>norm(s) = String(s || "").trim()\<close>\<close>

definition norm :: "jsval \<Rightarrow> string" where
  "norm s = trim (toString (js_or s (JStr [])))"

text \<open>\<open>stripEmpty(arr) = (arr || []).map(norm).filter(Boolean)\<close>\<close>

definition stripEmpty :: "jsval list \<Rightarrow> string list" where
  "stripEmpty arr = filter (\<lambda>s. s \<noteq> []) (map norm arr)"

section \<open>Plans and metadata\<close>

text \<open>
  The plan object. The unified variant builds the first nine fields; the two-stage variant
  builds four more (\<open>limit\<close> and the semantic-search fields). The field \<open>notes'\<close> is
  the property \<open>notes\<close>.
\<close>

record plan =
  urn :: jsval
  intent :: jsval
  task :: jsval
  category :: jsval
  filterParam :: jsval
  filterValue :: jsval
  targetParam :: jsval
  propsFlatKey :: jsval
  notes' :: jsval

record plan_twoStage = plan +
  limit :: jsval
  useSemanticSearch :: jsval
  semanticQuery :: jsval
  topK :: jsval

record meta =
  categoryField :: string
  categories :: "string list"
  paramSamples :: "(string \<times> string list) list"
  areaKeys :: "string list"

record meta_unified = meta +
  volumeKeys :: "string list"

subsection \<open>Two-stage variant: \<open>buildQueryPlan\<close> and \<open>validatePlanParams\<close>\<close>

definition buildQueryPlan :: "jsobj \<Rightarrow> jsobj \<Rightarrow> jsval \<Rightarrow> jsval \<Rightarrow> plan_twoStage" where
  "buildQueryPlan plan1 plan2 urn' category' =
     \<lparr> urn = urn',
       intent = JStr ''bim'',
       task = js_or (getProp plan1 ''task'') (JStr ''count''),
       category = category',
       filterParam = js_or (getProp plan2 ''filterParam'') JNull,
       filterValue = js_nullish (getProp plan2 ''filterValue'') JNull,
       targetParam = js_or (getProp plan2 ''targetParam'') JNull,
       propsFlatKey = js_or (getProp plan2 ''propsFlatKey'') JNull,
       notes' = js_or (getProp plan1 ''notes'') (JStr []),
       limit = js_or (getProp plan2 ''limit'') (js_or (getProp plan1 ''limit'') DEFAULT_LIMIT),
       useSemanticSearch = js_or (getProp plan2 ''useSemanticSearch'') (JBool False),
       semanticQuery = js_or (getProp plan2 ''semanticQuery'') JNull,
       topK = js_or (getProp plan2 ''topK'') DEFAULT_TOP_K \<rparr>"

definition validatePlanParams :: "plan_twoStage \<Rightarrow> plan_twoStage" where
  "validatePlanParams p =
     (let p1 = (if truthy (filterParam p) \<and> \<not> ALLOWED_PARAMS_has (filterParam p)
                then p\<lparr>filterParam := JNull\<rparr> else p);
          p2 = (if truthy (targetParam p1) \<and> \<not> ALLOWED_PARAMS_has (targetParam p1)
                then p1\<lparr>targetParam := JNull\<rparr> else p1)
      in p2)"

text \<open>
  The category decision of the two-stage route handler (the lines after the intent step):
  \<open>let category = plan1.category ? norm(plan1.category) : null;
  if (!category && hintCategory && meta.categories.includes(hintCategory)) category = hintCategory;\<close>
\<close>

definition routeCategory :: "jsobj \<Rightarrow> jsval \<Rightarrow> string list \<Rightarrow> jsval" where
  "routeCategory plan1 hintCategory cats =
     (let category' = (if truthy (getProp plan1 ''category'')
                       then JStr (norm (getProp plan1 ''category'')) else JNull)
      in if \<not> truthy category' \<and> truthy hintCategory \<and> includes_js cats hintCategory
         then hintCategory else category')"

subsection \<open>Unified variant: \<open>validateAndBuildPlan\<close>\<close>

definition validateAndBuildPlan :: "jsobj \<Rightarrow> jsval \<Rightarrow> string list \<Rightarrow> plan" where
  "validateAndBuildPlan analysis urn' availableCategories =
     (let category' =
            (if truthy (getProp analysis ''category'') then
               (let normalizedCategory = norm (getProp analysis ''category'');
                    exactMatch = find_js (\<lambda>c. c = normalizedCategory) availableCategories
                in if truthy exactMatch then exactMatch
                   else (let caseMatch =
                               find_js (\<lambda>c. toLowerCase c = toLowerCase normalizedCategory)
                                 availableCategories
                         in if truthy caseMatch then caseMatch else JNull))
             else JNull);
          filterParam0 = js_or (getProp analysis ''filterParam'') JNull;
          targetParam0 = js_or (getProp analysis ''targetParam'') JNull;
          filterParam1 = (if truthy filterParam0 \<and> \<not> ALLOWED_PARAMS_has filterParam0
                          then JNull else filterParam0);
          targetParam1 = (if truthy targetParam0 \<and> \<not> ALLOWED_PARAMS_has targetParam0
                          then JNull else targetParam0)
      in \<lparr> urn = urn',
           intent = js_or (getProp analysis ''intent'') (JStr ''bim''),
           task = js_or (getProp analysis ''task'') (JStr ''count''),
           category = category',
           filterParam = filterParam1,
           filterValue = js_nullish (getProp analysis ''filterValue'') JNull,
           targetParam = targetParam1,
           propsFlatKey = js_or (getProp analysis ''propsFlatKey'') JNull,
           notes' = js_or (getProp analysis ''notes'') (JStr []) \<rparr>)"

section \<open>The query compiler inside \<open>runQuery\<close>\<close>

text \<open>
  The part of \<open>runQuery\<close> that builds \<open>whereClauses\<close> and \<open>params\<close>. The two-stage
  variant has the candidate ids of the semantic search (\<open>None\<close> is \<open>null\<close>); the unified
  variant has no such clause.
\<close>

definition whereClauses_twoStage ::
  "'a meta_scheme \<Rightarrow> plan_twoStage \<Rightarrow> int list option \<Rightarrow> string list \<times> jsval list" where
  "whereClauses_twoStage m p candidateIds =
     (let category' = (if truthy (category p) then JStr (norm (category p)) else JNull);
          w0 = [''urn = ?''];
          ps0 = [urn p];
          w1 = (case candidateIds of
                  None \<Rightarrow> w0
                | Some ids \<Rightarrow> if length ids > 0
                    then w0 @ [''id IN ('' @ join '','' (map show_int ids) @ '')'']
                    else w0);
          (w2, ps2) = (if truthy category'
                       then (w1 @ [categoryField m @ '' = ?''], ps0 @ [category'])
                       else (w1, ps0));
          (w3, ps3) = (if truthy (filterParam p) \<and> filterValue p \<noteq> JUndefined
                          \<and> filterValue p \<noteq> JNull \<and> trim (toString (filterValue p)) \<noteq> []
                       then (w2 @ [toString (filterParam p) @ '' = ?''], ps2 @ [filterValue p])
                       else (w2, ps2))
      in (w3, ps3))"

definition whereClauses_unified ::
  "'a meta_scheme \<Rightarrow> plan \<Rightarrow> string list \<times> jsval list" where
  "whereClauses_unified m p =
     (let category' = (if truthy (category p) then JStr (norm (category p)) else JNull);
          w0 = [''urn = ?''];
          ps0 = [urn p];
          (w2, ps2) = (if truthy category'
                       then (w0 @ [categoryField m @ '' = ?''], ps0 @ [category'])
                       else (w0, ps0));
          (w3, ps3) = (if truthy (filterParam p) \<and> filterValue p \<noteq> JUndefined
                          \<and> filterValue p \<noteq> JNull \<and> trim (toString (filterValue p)) \<noteq> []
                       then (w2 @ [toString (filterParam p) @ '' = ?''], ps2 @ [filterValue p])
                       else (w2, ps2))
      in (w3, ps3))"

text \<open>\<open>const whereClause = whereClauses.join(" AND ")\<close>\<close>

definition whereClause_twoStage ::
  "'a meta_scheme \<Rightarrow> plan_twoStage \<Rightarrow> int list option \<Rightarrow> string" where
  "whereClause_twoStage m p candidateIds =
     join '' AND '' (fst (whereClauses_twoStage m p candidateIds))"

definition whereClause_unified :: "'a meta_scheme \<Rightarrow> plan \<Rightarrow> string" where
  "whereClause_unified m p = join '' AND '' (fst (whereClauses_unified m p))"

section \<open>Results, prompts and the external collaborators\<close>

text \<open>
  The result object of a task handler, by its \<open>kind\<close>:
  \<open>{kind: "count", count}\<close>, \<open>{kind: "distinct", field, values}\<close>,
  \<open>{kind: "group_count", field, rows}\<close>,
  \<open>{kind: "sum_area", propsFlatKey, total_area, n, unit, notes}\<close>,
  \<open>{kind: "sum_volume", propsFlatKey, total_volume, n, unit, notes}\<close> and
  \<open>{kind: "list", docs}\<close>.
\<close>

datatype result =
    CountResult jsval
  | DistinctResult jsval "string list"
  | GroupCountResult jsval "jsobj list"
  | SumAreaResult jsval jsval jsval jsval jsval
  | SumVolumeResult jsval jsval jsval jsval jsval
  | ListResult "jsobj list"

text \<open>
  A prompt is a fixed template filled with values. The reasoning service is a black box,
  so a prompt is represented by its template and the values that go into it:
  the question, and what each prompt builder receives.
\<close>

datatype prompt =
    HintPrompt jsval "string list"
  | IntentPrompt jsval "string list" jsval
  | ParameterPrompt jsval jsobj jsval "(string \<times> string list) list" "string list"
  | AnalysisPrompt jsval meta_unified
  | AreaAnalysisPrompt_twoStage jsval plan jsval "jsobj list"
  | AreaAnalysisPrompt_unified jsval plan jsval "jsobj list"
  | VolumeAnalysisPrompt jsval plan jsval "jsobj list"
  | AnswerPrompt_twoStage jsval meta plan_twoStage result
  | AnswerPrompt_unified jsval meta_unified plan result
  | GeneralPrompt_twoStage jsval
  | GeneralPrompt_unified jsval

text \<open>
  What the routers require from outside:
  \<^item> \<open>db_all sql params\<close> is \<open>db.prepare(sql).all(...params)\<close>, \<open>db_get\<close> is
    \<open>.get(...params)\<close> (a row or \<open>undefined\<close>); either may throw;
  \<^item> \<open>generateEmbedding\<close> returns a vector (of an unspecified type \<open>'v\<close>) or \<open>null\<close>,
    or throws; an array, even an empty one, is truthy, so only \<open>null\<close> is \<open>None\<close>;
  \<^item> \<open>semanticSearch urn vector topK\<close> returns the candidate ids or throws;
  \<^item> \<open>geminiJson\<close> returns an object or throws, \<open>geminiText\<close> a string or throws;
  \<^item> \<open>JSON_parse_keys s\<close> is \<open>Object.keys(JSON.parse(s))\<close>, which throws on a text
    that is not JSON.
\<close>

record 'v env =
  db_all :: "string \<Rightarrow> jsval list \<Rightarrow> error + jsobj list"
  db_get :: "string \<Rightarrow> jsval list \<Rightarrow> error + jsobj option"
  generateEmbedding :: "jsval \<Rightarrow> error + 'v option"
  semanticSearch :: "jsval \<Rightarrow> 'v \<Rightarrow> jsval \<Rightarrow> error + int list"
  geminiJson :: "prompt \<Rightarrow> error + jsobj"
  geminiText :: "prompt \<Rightarrow> error + string"
  JSON_parse_keys :: "string \<Rightarrow> error + string list"

section \<open>Task handlers\<close>

definition nl :: string where
  "nl = [CHR 0x0A]"

definition indent13 :: string where
  "indent13 = replicate 13 (CHR 0x20)"

definition indent20 :: string where
  "indent20 = replicate 20 (CHR 0x20)"

definition handleCountTask :: "'v env \<Rightarrow> string \<Rightarrow> jsval list \<Rightarrow> error + result" where
  "handleCountTask e whereClause params =
     (case db_get e (''SELECT COUNT(*) as count FROM elements WHERE '' @ whereClause) params of
        Inl err \<Rightarrow> Inl err
      | Inr None \<Rightarrow> Inl (TypeError ''Cannot read properties of undefined'')
      | Inr (Some row) \<Rightarrow> Inr (CountResult (getProp row ''count'')))"

text \<open>\<open>rows.map((r) => norm(r[field])).filter(Boolean)\<close>\<close>

definition distinctValues :: "jsval \<Rightarrow> jsobj list \<Rightarrow> string list" where
  "distinctValues field rows =
     filter (\<lambda>s. s \<noteq> []) (map (\<lambda>r. norm (getProp r (toString field))) rows)"

definition handleDistinctTask_twoStage ::
  "'v env \<Rightarrow> string \<Rightarrow> jsval list \<Rightarrow> jsval \<Rightarrow> jsval \<Rightarrow> error + result" where
  "handleDistinctTask_twoStage e whereClause params field lim =
     (if \<not> truthy field then Inl (Error ''distinct requires targetParam'')
      else case db_all e
             (''SELECT DISTINCT '' @ toString field @ '' FROM elements WHERE '' @ whereClause
                @ '' AND '' @ toString field @ '' IS NOT NULL LIMIT ?'')
             (params @ [lim]) of
          Inl err \<Rightarrow> Inl err
        | Inr rows \<Rightarrow> Inr (DistinctResult field (distinctValues field rows)))"

definition handleDistinctTask_unified ::
  "'v env \<Rightarrow> string \<Rightarrow> jsval list \<Rightarrow> jsval \<Rightarrow> error + result" where
  "handleDistinctTask_unified e whereClause params field =
     (if \<not> truthy field then Inl (Error ''distinct requires targetParam'')
      else case db_all e
             (''SELECT DISTINCT '' @ toString field @ '' FROM elements WHERE '' @ whereClause
                @ '' AND '' @ toString field @ '' IS NOT NULL'')
             params of
          Inl err \<Rightarrow> Inl err
        | Inr rows \<Rightarrow> Inr (DistinctResult field (distinctValues field rows)))"

definition groupCountSql :: "string \<Rightarrow> string \<Rightarrow> string" where
  "groupCountSql f whereClause =
     ''SELECT '' @ f @ '', COUNT(*) as count'' @ nl
     @ indent13 @ ''FROM elements'' @ nl
     @ indent13 @ ''WHERE '' @ whereClause @ '' AND '' @ f @ '' IS NOT NULL'' @ nl
     @ indent13 @ ''GROUP BY '' @ f @ nl
     @ indent13 @ ''ORDER BY count DESC''"

definition handleGroupCountTask_twoStage ::
  "'v env \<Rightarrow> string \<Rightarrow> jsval list \<Rightarrow> jsval \<Rightarrow> jsval \<Rightarrow> error + result" where
  "handleGroupCountTask_twoStage e whereClause params field lim =
     (if \<not> truthy field then Inl (Error ''group_count requires targetParam'')
      else case db_all e
             (groupCountSql (toString field) whereClause @ nl @ indent13 @ ''LIMIT ?'')
             (params @ [lim]) of
          Inl err \<Rightarrow> Inl err
        | Inr rows \<Rightarrow> Inr (GroupCountResult field rows))"

definition handleGroupCountTask_unified ::
  "'v env \<Rightarrow> string \<Rightarrow> jsval list \<Rightarrow> jsval \<Rightarrow> error + result" where
  "handleGroupCountTask_unified e whereClause params field =
     (if \<not> truthy field then Inl (Error ''group_count requires targetParam'')
      else case db_all e (groupCountSql (toString field) whereClause) params of
          Inl err \<Rightarrow> Inl err
        | Inr rows \<Rightarrow> Inr (GroupCountResult field rows))"

text \<open>The JSON path \<open>$."<propsFlatKey>"\<close> bound as the first parameter.\<close>

definition jsonPath :: "jsval \<Rightarrow> jsval" where
  "jsonPath key = JStr (''$.'' @ [CHR 0x22] @ toString key @ [CHR 0x22])"

definition handleSumAreaTask_twoStage ::
  "'v env \<Rightarrow> string \<Rightarrow> jsval list \<Rightarrow> plan_twoStage \<Rightarrow> jsval \<Rightarrow> error + result" where
  "handleSumAreaTask_twoStage e whereClause params p question =
     (let propsFlatKey' = propsFlatKey p in
      if \<not> truthy propsFlatKey' then Inl (Error ''sum_area requires propsFlatKey'')
      else case db_all e
             (''SELECT json_extract(props_flat, ?) as area_raw, name, type_name, level_number FROM elements WHERE ''
                @ whereClause)
             (jsonPath propsFlatKey' # params) of
          Inl err \<Rightarrow> Inl err
        | Inr rows \<Rightarrow>
            (case geminiJson e
                    (AreaAnalysisPrompt_twoStage (js_or question (notes' p)) (plan.truncate p)
                       propsFlatKey' (take 100 rows)) of
               Inl err \<Rightarrow> Inl err
             | Inr areaResult \<Rightarrow>
                 Inr (SumAreaResult propsFlatKey'
                        (js_or (getProp areaResult ''total_area'') (JNum 0))
                        (js_or (getProp areaResult ''count'') (JNum 0))
                        (js_or (getProp areaResult ''unit'') (JStr [CHR ''m'', CHR 0xC2, CHR 0xB2]))
                        (js_or (getProp areaResult ''notes'') (JStr [])))))"

definition handleSumAreaTask_unified ::
  "'v env \<Rightarrow> string \<Rightarrow> jsval list \<Rightarrow> plan \<Rightarrow> jsval \<Rightarrow> error + result" where
  "handleSumAreaTask_unified e whereClause params p question =
     (let propsFlatKey' = propsFlatKey p in
      if \<not> truthy propsFlatKey' then Inl (Error ''sum_area requires propsFlatKey'')
      else case db_all e
             (''SELECT json_extract(props_flat, ?) as area_raw, name, type_name, level_number FROM elements WHERE ''
                @ whereClause)
             (jsonPath propsFlatKey' # params) of
          Inl err \<Rightarrow> Inl err
        | Inr rows \<Rightarrow>
            (case geminiJson e
                    (AreaAnalysisPrompt_unified (js_or question (notes' p)) p
                       propsFlatKey' (take 200 rows)) of
               Inl err \<Rightarrow> Inl err
             | Inr areaResult \<Rightarrow>
                 Inr (SumAreaResult propsFlatKey'
                        (js_or (getProp areaResult ''total_area'') (JNum 0))
                        (js_or (getProp areaResult ''count'') (JNum 0))
                        (js_or (getProp areaResult ''unit'') (JStr [CHR ''m'', CHR 0xB2]))
                        (js_or (getProp areaResult ''notes'') (JStr [])))))"

definition handleSumVolumeTask ::
  "'v env \<Rightarrow> string \<Rightarrow> jsval list \<Rightarrow> plan \<Rightarrow> jsval \<Rightarrow> error + result" where
  "handleSumVolumeTask e whereClause params p question =
     (let propsFlatKey' = js_or (propsFlatKey p) (JStr ''Dimensions.Volume'') in
      case db_all e
             (''SELECT json_extract(props_flat, ?) as volume_raw, name, type_name, level_number FROM elements WHERE ''
                @ whereClause)
             (jsonPath propsFlatKey' # params) of
          Inl err \<Rightarrow> Inl err
        | Inr rows \<Rightarrow>
            (case geminiJson e
                    (VolumeAnalysisPrompt (js_or question (notes' p)) p
                       propsFlatKey' (take 200 rows)) of
               Inl err \<Rightarrow> Inl err
             | Inr volumeResult \<Rightarrow>
                 Inr (SumVolumeResult propsFlatKey'
                        (js_or (getProp volumeResult ''total_volume'') (JNum 0))
                        (js_or (getProp volumeResult ''count'') (JNum 0))
                        (js_or (getProp volumeResult ''unit'') (JStr [CHR ''m'', CHR 0xB3]))
                        (js_or (getProp volumeResult ''notes'') (JStr [])))))"

definition listSql :: "string \<Rightarrow> string" where
  "listSql whereClause =
     ''SELECT urn, guid, dbId, name, component_type, type_name, family_name,'' @ nl
     @ indent20 @ ''level_number, room_name, room_type,'' @ nl
     @ indent20 @ ''system_type, system_name,'' @ nl
     @ indent20 @ ''manufacturer, model_name,'' @ nl
     @ indent20 @ ''omniclass_title, omniclass_number'' @ nl
     @ indent13 @ ''FROM elements'' @ nl
     @ indent13 @ ''WHERE '' @ whereClause"

text \<open>The projection of a row to a document of the list result.\<close>

definition toDoc :: "jsobj \<Rightarrow> jsobj" where
  "toDoc r =
     [(''urn'', getProp r ''urn''),
      (''guid'', getProp r ''guid''),
      (''dbId'', getProp r ''dbId''),
      (''name'', getProp r ''name''),
      (''basic'', JObj [(''component_type'', getProp r ''component_type''),
                        (''type_name'', getProp r ''type_name''),
                        (''family_name'', getProp r ''family_name'')]),
      (''location'', JObj [(''level_number'', getProp r ''level_number''),
                           (''room_name'', getProp r ''room_name''),
                           (''room_type'', getProp r ''room_type'')]),
      (''system'', JObj [(''system_type'', getProp r ''system_type''),
                         (''system_name'', getProp r ''system_name'')]),
      (''equipment'', JObj [(''manufacturer'', getProp r ''manufacturer''),
                            (''model_name'', getProp r ''model_name'')]),
      (''omniclass'', JObj [(''title'', getProp r ''omniclass_title''),
                            (''number'', getProp r ''omniclass_number'')])]"

definition handleListTask_twoStage ::
  "'v env \<Rightarrow> string \<Rightarrow> jsval list \<Rightarrow> jsval \<Rightarrow> error + result" where
  "handleListTask_twoStage e whereClause params lim =
     (case db_all e (listSql whereClause @ nl @ indent13 @ ''LIMIT ?'') (params @ [lim]) of
        Inl err \<Rightarrow> Inl err
      | Inr rows \<Rightarrow> Inr (ListResult (map toDoc rows)))"

definition handleListTask_unified ::
  "'v env \<Rightarrow> string \<Rightarrow> jsval list \<Rightarrow> error + result" where
  "handleListTask_unified e whereClause params =
     (case db_all e (listSql whereClause) params of
        Inl err \<Rightarrow> Inl err
      | Inr rows \<Rightarrow> Inr (ListResult (map toDoc rows)))"

section \<open>Query orchestration: \<open>runQuery\<close>\<close>

text \<open>
  The semantic search at the head of the two-stage \<open>runQuery\<close>: \<open>candidateIds\<close> starts as
  \<open>null\<close> and is assigned only when the embedding is truthy and the search returns; the
  \<open>catch\<close> swallows what either call throws.
\<close>

definition semanticCandidates :: "'v env \<Rightarrow> plan_twoStage \<Rightarrow> int list option" where
  "semanticCandidates e p =
     (if truthy (useSemanticSearch p) \<and> truthy (semanticQuery p) then
        (case generateEmbedding e (semanticQuery p) of
           Inl err \<Rightarrow> None
         | Inr None \<Rightarrow> None
         | Inr (Some queryEmbed) \<Rightarrow>
             (case semanticSearch e (urn p) queryEmbed (js_or (topK p) DEFAULT_TOP_K) of
                Inl err \<Rightarrow> None
              | Inr ids \<Rightarrow> Some ids))
      else None)"

text \<open>\<open>Number.isFinite(x)\<close>: only a number is finite.\<close>

fun isFinite :: "jsval \<Rightarrow> bool" where
  "isFinite (JNum n) = True"
| "isFinite v = False"

definition runQuery_twoStage ::
  "'v env \<Rightarrow> 'a meta_scheme \<Rightarrow> plan_twoStage \<Rightarrow> jsval \<Rightarrow> error + result" where
  "runQuery_twoStage e m p question =
     (let lim = (if isFinite (limit p) then limit p else DEFAULT_LIMIT);
          candidateIds = semanticCandidates e p;
          params = snd (whereClauses_twoStage m p candidateIds);
          whereClause = whereClause_twoStage m p candidateIds
      in if task p = JStr ''count'' then handleCountTask e whereClause params
         else if task p = JStr ''distinct''
           then handleDistinctTask_twoStage e whereClause params (targetParam p) lim
         else if task p = JStr ''group_count''
           then handleGroupCountTask_twoStage e whereClause params (targetParam p) lim
         else if task p = JStr ''sum_area''
           then handleSumAreaTask_twoStage e whereClause params p question
         else handleListTask_twoStage e whereClause params lim)"

definition runQuery_unified ::
  "'v env \<Rightarrow> 'a meta_scheme \<Rightarrow> plan \<Rightarrow> jsval \<Rightarrow> error + result" where
  "runQuery_unified e m p question =
     (let params = snd (whereClauses_unified m p);
          whereClause = whereClause_unified m p
      in if task p = JStr ''count'' then handleCountTask e whereClause params
         else if task p = JStr ''distinct''
           then handleDistinctTask_unified e whereClause params (targetParam p)
         else if task p = JStr ''group_count''
           then handleGroupCountTask_unified e whereClause params (targetParam p)
         else if task p = JStr ''sum_area''
           then handleSumAreaTask_unified e whereClause params p question
         else if task p = JStr ''sum_volume''
           then handleSumVolumeTask e whereClause params p question
         else handleListTask_unified e whereClause params)"

section \<open>Metadata discovery: \<open>getMeta\<close>\<close>

definition quotes :: string where
  "quotes = [CHR 0x27, CHR 0x27]"

definition categoriesSql :: string where
  "categoriesSql =
     ''SELECT DISTINCT component_type FROM elements WHERE urn = ? AND component_type IS NOT NULL AND component_type != ''
     @ quotes"

definition sampleSql_unified :: "string \<Rightarrow> string" where
  "sampleSql_unified k =
     ''SELECT DISTINCT '' @ k @ '' FROM elements WHERE urn = ? AND '' @ k
     @ '' IS NOT NULL AND '' @ k @ '' != '' @ quotes"

definition sampleSql_twoStage :: "string \<Rightarrow> string" where
  "sampleSql_twoStage k = sampleSql_unified k @ '' LIMIT 15''"

text \<open>The loop over \<open>SAMPLE_KEYS\<close> that fills \<open>paramSamples\<close>, key by key.\<close>

fun sampleLoop ::
  "'v env \<Rightarrow> (string \<Rightarrow> string) \<Rightarrow> jsval \<Rightarrow> string list \<Rightarrow> error + (string \<times> string list) list" where
  "sampleLoop e sql urn' [] = Inr []"
| "sampleLoop e sql urn' (k # ks) =
     (case db_all e (sql k) [urn'] of
        Inl err \<Rightarrow> Inl err
      | Inr rows \<Rightarrow>
          (case sampleLoop e sql urn' ks of
             Inl err \<Rightarrow> Inl err
           | Inr rest \<Rightarrow> Inr ((k, stripEmpty (map (\<lambda>r. getProp r k) rows)) # rest)))"

text \<open>
  \<open>/area/i.test(k)\<close> and \<open>/volume/i.test(k)\<close>: the key contains the word, in any mix of
  upper and lower case. The pattern is a word of lower-case ASCII letters.
\<close>

fun regex_i_test :: "string \<Rightarrow> string \<Rightarrow> bool" where
  "regex_i_test pat [] = (pat = [])"
| "regex_i_test pat (c # cs) =
     (map lower_char (take (length pat) (c # cs)) = pat \<or> regex_i_test pat cs)"

text \<open>\<open>Set.prototype.add\<close> on a set kept in insertion order.\<close>

definition set_add :: "string list \<Rightarrow> string \<Rightarrow> string list" where
  "set_add s k = (if k \<in> set s then s else s @ [k])"

definition addMatching :: "string \<Rightarrow> string list \<Rightarrow> string list \<Rightarrow> string list" where
  "addMatching pat keySet ks = foldl (\<lambda>s k. if regex_i_test pat k then set_add s k else s) keySet ks"

text \<open>
  The loop over \<open>docs\<close>: a falsy \<open>props_flat\<close> is skipped (\<open>continue\<close>); any other one
  goes to \<open>JSON.parse\<close>, outside any \<open>try\<close>.
\<close>

fun scanDocs_twoStage :: "'v env \<Rightarrow> jsobj list \<Rightarrow> string list \<Rightarrow> error + string list" where
  "scanDocs_twoStage e [] areaKeySet = Inr areaKeySet"
| "scanDocs_twoStage e (d # ds) areaKeySet =
     (if \<not> truthy (getProp d ''props_flat'') then scanDocs_twoStage e ds areaKeySet
      else case JSON_parse_keys e (toString (getProp d ''props_flat'')) of
             Inl err \<Rightarrow> Inl err
           | Inr ks \<Rightarrow> scanDocs_twoStage e ds (addMatching ''area'' areaKeySet ks))"

fun scanDocs_unified ::
  "'v env \<Rightarrow> jsobj list \<Rightarrow> string list \<times> string list \<Rightarrow> error + string list \<times> string list" where
  "scanDocs_unified e [] sets = Inr sets"
| "scanDocs_unified e (d # ds) sets =
     (if \<not> truthy (getProp d ''props_flat'') then scanDocs_unified e ds sets
      else case JSON_parse_keys e (toString (getProp d ''props_flat'')) of
             Inl err \<Rightarrow> Inl err
           | Inr ks \<Rightarrow>
               scanDocs_unified e ds
                 (foldl (\<lambda>(areaKeySet, volumeKeySet) k.
                           (if regex_i_test ''area'' k then set_add areaKeySet k else areaKeySet,
                            if regex_i_test ''volume'' k then set_add volumeKeySet k
                            else volumeKeySet))
                    sets ks))"

definition getMeta_twoStage :: "'v env \<Rightarrow> jsval \<Rightarrow> error + meta" where
  "getMeta_twoStage e urn' =
     (case db_all e categoriesSql [urn'] of
        Inl err \<Rightarrow> Inl err
      | Inr compRows \<Rightarrow>
          (case sampleLoop e sampleSql_twoStage urn' SAMPLE_KEYS of
             Inl err \<Rightarrow> Inl err
           | Inr paramSamples' \<Rightarrow>
               (case db_all e ''SELECT props_flat FROM elements WHERE urn = ? LIMIT 50'' [urn'] of
                  Inl err \<Rightarrow> Inl err
                | Inr docs \<Rightarrow>
                    (case scanDocs_twoStage e docs [] of
                       Inl err \<Rightarrow> Inl err
                     | Inr areaKeySet \<Rightarrow>
                         Inr \<lparr> categoryField = ''component_type'',
                               categories =
                                 stripEmpty (map (\<lambda>r. getProp r ''component_type'') compRows),
                               paramSamples = paramSamples',
                               areaKeys = take 200 areaKeySet \<rparr>))))"

definition getMeta_unified :: "'v env \<Rightarrow> jsval \<Rightarrow> error + meta_unified" where
  "getMeta_unified e urn' =
     (case db_all e categoriesSql [urn'] of
        Inl err \<Rightarrow> Inl err
      | Inr compRows \<Rightarrow>
          (case sampleLoop e sampleSql_unified urn' SAMPLE_KEYS of
             Inl err \<Rightarrow> Inl err
           | Inr paramSamples' \<Rightarrow>
               (case db_all e ''SELECT props_flat FROM elements WHERE urn = ?'' [urn'] of
                  Inl err \<Rightarrow> Inl err
                | Inr docs \<Rightarrow>
                    (case scanDocs_unified e docs ([], []) of
                       Inl err \<Rightarrow> Inl err
                     | Inr (areaKeySet, volumeKeySet) \<Rightarrow>
                         Inr \<lparr> categoryField = ''component_type'',
                               categories =
                                 stripEmpty (map (\<lambda>r. getProp r ''component_type'') compRows),
                               paramSamples = paramSamples',
                               areaKeys = areaKeySet,
                               volumeKeys = volumeKeySet \<rparr>))))"

section \<open>Route handlers\<close>

text \<open>
  \<open>detectHintCategory\<close> of the two-stage variant: \<open>null\<close> without a question or without
  categories, and \<open>null\<close> when the reasoning call throws.
\<close>

definition detectHintCategory :: "'v env \<Rightarrow> jsval \<Rightarrow> string list \<Rightarrow> jsval" where
  "detectHintCategory e question availableCategories =
     (if \<not> truthy question \<or> length availableCategories = 0 then JNull
      else case geminiJson e (HintPrompt question availableCategories) of
             Inl err \<Rightarrow> JNull
           | Inr res \<Rightarrow>
               if truthy (getProp res ''category'') \<and> getProp res ''confidence'' \<noteq> JStr ''low''
               then getProp res ''category'' else JNull)"

text \<open>
  The response of a route handler: \<open>res.status(400).json({error})\<close>, the answer to a
  general question, the answer with its hits, or \<open>next(err)\<close>. The last component is the
  \<open>debug\<close> payload, present when the request asks for it.
\<close>

datatype hits = ListHits nat "jsobj list" | TaskHits result

datatype ('m, 'p) response =
    Status400 string
  | JsonGeneral string "('m \<times> jsobj) option"
  | JsonHits string hits "('m \<times> 'p \<times> result) option"
  | NextError error

fun hitsOf :: "result \<Rightarrow> hits" where
  "hitsOf (ListResult docs) = ListHits (length docs) docs"
| "hitsOf r = TaskHits r"

definition post_twoStage :: "'v env \<Rightarrow> jsobj \<Rightarrow> (meta, plan_twoStage) response" where
  "post_twoStage e body =
     (let urn' = getProp body ''urn'';
          question = getProp body ''question'';
          debug = getProp body ''debug''
      in if \<not> truthy urn' then Status400 ''Missing urn''
         else if \<not> truthy question then Status400 ''Missing question''
         else case getMeta_twoStage e urn' of
           Inl err \<Rightarrow> NextError err
         | Inr m \<Rightarrow>
             (let hintCategory = detectHintCategory e question (categories m) in
              case geminiJson e (IntentPrompt question (categories m) hintCategory) of
                Inl err \<Rightarrow> NextError err
              | Inr plan1 \<Rightarrow>
                  if getProp plan1 ''intent'' = JStr ''general'' then
                    (case geminiText e (GeneralPrompt_twoStage question) of
                       Inl err \<Rightarrow> NextError err
                     | Inr answer \<Rightarrow>
                         JsonGeneral answer (if truthy debug then Some (m, plan1) else None))
                  else
                    (let category' = routeCategory plan1 hintCategory (categories m) in
                     case geminiJson e
                            (ParameterPrompt question plan1 category' (paramSamples m)
                               (areaKeys m)) of
                       Inl err \<Rightarrow> NextError err
                     | Inr plan2 \<Rightarrow>
                         (let p = validatePlanParams (buildQueryPlan plan1 plan2 urn' category')
                          in case runQuery_twoStage e m p question of
                               Inl err \<Rightarrow> NextError err
                             | Inr res \<Rightarrow>
                                 (case geminiText e (AnswerPrompt_twoStage question m p res) of
                                    Inl err \<Rightarrow> NextError err
                                  | Inr answer \<Rightarrow>
                                      JsonHits answer (hitsOf res)
                                        (if truthy debug then Some (m, p, res) else None))))))"

definition post_unified :: "'v env \<Rightarrow> jsobj \<Rightarrow> (meta_unified, plan) response" where
  "post_unified e body =
     (let urn' = getProp body ''urn'';
          question = getProp body ''question'';
          debug = getProp body ''debug''
      in if \<not> truthy urn' then Status400 ''Missing urn''
         else if \<not> truthy question then Status400 ''Missing question''
         else case getMeta_unified e urn' of
           Inl err \<Rightarrow> NextError err
         | Inr m \<Rightarrow>
             (case geminiJson e (AnalysisPrompt question m) of
                Inl err \<Rightarrow> NextError err
              | Inr analysis \<Rightarrow>
                  if getProp analysis ''intent'' = JStr ''general'' then
                    (case geminiText e (GeneralPrompt_unified question) of
                       Inl err \<Rightarrow> NextError err
                     | Inr answer \<Rightarrow>
                         JsonGeneral answer (if truthy debug then Some (m, analysis) else None))
                  else
                    (let p = validateAndBuildPlan analysis urn' (categories m)
                     in case runQuery_unified e m p question of
                          Inl err \<Rightarrow> NextError err
                        | Inr res \<Rightarrow>
                            (case geminiText e (AnswerPrompt_unified question m p res) of
                               Inl err \<Rightarrow> NextError err
                             | Inr answer \<Rightarrow>
                                 JsonHits answer (hitsOf res)
                                   (if truthy debug then Some (m, p, res) else None)))))"

section \<open>Sample collaborators for evaluation\<close>

text \<open>
  A store and services to evaluate the routers on. The store answers for one model:
  its category query returns the category \<open>Doors\<close>, its sample queries return nothing,
  the property-blob query returns \<open>docs\<close>, and every task query returns \<open>rows\<close>. The
  reasoning service replies \<open>reply1\<close> to the intent (or analysis) prompt and \<open>reply2\<close> to
  the parameter prompt. The embedding service throws on the text \<open>fail\<close> and returns
  \<open>null\<close> on the text \<open>empty\<close>; the similarity search throws when asked for one
  candidate. The only property blob that parses is \<open>sample_blob\<close>, the JSON text of an
  object with the single key \<open>Floor Area\<close>.
\<close>

definition sample_blob :: string where
  "sample_blob = ''{'' @ [CHR 0x22] @ ''Floor Area'' @ [CHR 0x22] @ '': 12}''"

definition sample_env :: "jsobj list \<Rightarrow> jsobj list \<Rightarrow> jsobj \<Rightarrow> jsobj \<Rightarrow> unit env" where
  "sample_env docs rows reply1 reply2 =
     \<lparr> db_all = (\<lambda>sql params.
          if sql = ''SELECT props_flat FROM elements WHERE urn = ?''
             \<or> sql = ''SELECT props_flat FROM elements WHERE urn = ? LIMIT 50'' then Inr docs
          else if sql = categoriesSql then Inr [[(''component_type'', JStr ''Doors'')]]
          else if sql \<in> set (map sampleSql_unified SAMPLE_KEYS)
                \<or> sql \<in> set (map sampleSql_twoStage SAMPLE_KEYS) then Inr []
          else Inr rows),
       db_get = (\<lambda>sql params. Inr (Some [(''count'', JNum (int (length rows)))])),
       generateEmbedding = (\<lambda>text.
          if text = JStr ''fail'' then Inl (Error ''embedding service unavailable'')
          else if text = JStr ''empty'' then Inr None
          else Inr (Some ())),
       semanticSearch = (\<lambda>urn' v k.
          if k = JNum 1 then Inl (Error ''vector index unavailable'') else Inr [3, 5]),
       geminiJson = (\<lambda>pr. case pr of
            IntentPrompt q' cs h \<Rightarrow> Inr reply1
          | AnalysisPrompt q' m \<Rightarrow> Inr reply1
          | ParameterPrompt q' p1 c ps ks \<Rightarrow> Inr reply2
          | _ \<Rightarrow> Inr []),
       geminiText = (\<lambda>pr. Inr ''ok''),
       JSON_parse_keys = (\<lambda>s.
          if s = sample_blob then Inr [''Floor Area'']
          else Inl (SyntaxError ''Unexpected token'')) \<rparr>"

text \<open>The metadata of the sample model.\<close>

definition sample_meta :: meta where
  "sample_meta =
     \<lparr> categoryField = ''component_type'', categories = [''Doors''],
       paramSamples = map (\<lambda>k. (k, [])) SAMPLE_KEYS, areaKeys = [''Floor Area''] \<rparr>"

text \<open>
  The sample collaborators with an embedding service that returns the empty vector for
  every text. The routers never look inside a vector, so the sample takes lists of integers
  for vectors. The similarity search returns the candidates 3 and 5, and none when asked
  for one candidate.
\<close>

definition sample_vector_env :: "int list env" where
  "sample_vector_env =
     \<lparr> db_all = db_all (sample_env [] [] [] []),
       db_get = db_get (sample_env [] [] [] []),
       generateEmbedding = (\<lambda>text. Inr (Some [])),
       semanticSearch = (\<lambda>urn' v k. if k = JNum 1 then Inr [] else Inr [3, 5]),
       geminiJson = geminiJson (sample_env [] [] [] []),
       geminiText = geminiText (sample_env [] [] [] []),
       JSON_parse_keys = JSON_parse_keys (sample_env [] [] [] []) \<rparr>"

section \<open>Basic facts about the string utilities\<close>

lemma trim_Nil: "trim [] = []"
  by (simp add: trim_def)

lemma norm_falsy: "\<not> truthy v \<Longrightarrow> norm v = []"
  by (simp add: norm_def js_or_def trim_Nil)

lemma dropWhile_fixed: "xs \<noteq> [] \<Longrightarrow> \<not> P (hd xs) \<Longrightarrow> dropWhile P xs = xs"
  by (cases xs) auto

lemma dropWhile_rev_Nil: "xs = [] \<Longrightarrow> dropWhile P (rev xs) = []"
  by simp

lemma trim_first: "trim s \<noteq> [] \<Longrightarrow> \<not> is_space (hd (trim s))"
proof -
  assume a: "trim s \<noteq> []"
  let ?d = "dropWhile is_space s"
  let ?r = "dropWhile is_space (rev ?d)"
  have r: "?r \<noteq> []" using a by (simp add: trim_def)
  have d: "?d \<noteq> []"
    using r dropWhile_rev_Nil [of ?d is_space] by blast
  have "hd (rev ?r) = hd ?d"
  proof -
    have "rev ?d = takeWhile is_space (rev ?d) @ ?r" by simp
    then have "?d = rev ?r @ rev (takeWhile is_space (rev ?d))"
      by (metis rev_append rev_rev_ident)
    then show ?thesis using r by (metis hd_append2 rev_is_Nil_conv)
  qed
  then show ?thesis using d by (simp add: trim_def hd_dropWhile)
qed

lemma trim_last: "trim s \<noteq> [] \<Longrightarrow> \<not> is_space (last (trim s))"
proof -
  assume a: "trim s \<noteq> []"
  let ?r = "dropWhile is_space (rev (dropWhile is_space s))"
  have r: "?r \<noteq> []" using a by (simp add: trim_def)
  then have "\<not> is_space (hd ?r)" using hd_dropWhile by blast
  then show ?thesis using r by (simp add: trim_def last_rev)
qed

lemma trim_fixed:
  assumes "t \<noteq> []" and "\<not> is_space (hd t)" and "\<not> is_space (last t)"
  shows "trim t = t"
proof -
  have 1: "dropWhile is_space t = t"
    using assms by (simp add: dropWhile_fixed)
  have "dropWhile is_space (rev t) = rev t"
    using assms by (intro dropWhile_fixed) (simp_all add: hd_rev)
  with 1 show ?thesis by (simp add: trim_def)
qed

lemma trim_idem: "trim (trim s) = trim s"
proof (cases "trim s = []")
  case True
  with trim_Nil show ?thesis by simp
next
  case False
  then show ?thesis using trim_first trim_last trim_fixed by blast
qed

lemma norm_trimmed: "trim (norm v) = norm v"
  by (simp add: norm_def trim_idem)

lemma stripEmpty_nonempty: "[] \<notin> set (stripEmpty xs)"
  by (simp add: stripEmpty_def)

lemma find_first_match:
  "\<exists>x\<in>set xs. P x \<Longrightarrow> \<exists>y. find P xs = Some y \<and> y \<in> set xs \<and> P y"
  by (induction xs) auto

lemma find_no_match: "\<forall>x\<in>set xs. \<not> P x \<Longrightarrow> find P xs = None"
  by (induction xs) auto

lemma ALLOWED_PARAMS_truthy: "ALLOWED_PARAMS_has v \<Longrightarrow> truthy v"
  by (cases v) (auto simp: ALLOWED_PARAMS_has_def ALLOWED_PARAMS_def)

lemma includes_truthy: "[] \<notin> set cats \<Longrightarrow> includes_js cats h \<Longrightarrow> truthy h"
  by (cases h) (auto simp: includes_js_def)

section \<open>Facts about plan building\<close>

lemma validateAndBuildPlan_urn: "urn (validateAndBuildPlan a u cats) = u"
  by (simp add: validateAndBuildPlan_def Let_def)

lemma validateAndBuildPlan_task:
  "task (validateAndBuildPlan a u cats) = js_or (getProp a ''task'') (JStr ''count'')"
  by (simp add: validateAndBuildPlan_def Let_def)

lemma validateAndBuildPlan_target_null:
  "\<not> ALLOWED_PARAMS_has (getProp a ''targetParam'') \<Longrightarrow>
   targetParam (validateAndBuildPlan a u cats) = JNull"
  by (simp add: validateAndBuildPlan_def Let_def js_or_def)

lemma validated_twoStage_task:
  "task (validatePlanParams (buildQueryPlan plan1 plan2 u c))
     = js_or (getProp plan1 ''task'') (JStr ''count'')"
  by (simp add: validatePlanParams_def buildQueryPlan_def Let_def)

lemma validated_twoStage_target_null:
  "\<not> ALLOWED_PARAMS_has (getProp plan2 ''targetParam'') \<Longrightarrow>
   targetParam (validatePlanParams (buildQueryPlan plan1 plan2 u c)) = JNull"
  by (simp add: validatePlanParams_def buildQueryPlan_def Let_def js_or_def)

lemma validated_twoStage_category:
  "category (validatePlanParams (buildQueryPlan plan1 plan2 u c)) = c"
  by (simp add: validatePlanParams_def buildQueryPlan_def Let_def)

lemma routeCategory_cases:
  assumes "[] \<notin> set cats"
  shows "routeCategory plan1 h cats =
     (if norm (getProp plan1 ''category'') \<noteq> [] then JStr (norm (getProp plan1 ''category''))
      else if includes_js cats h then h
      else if truthy (getProp plan1 ''category'') then JStr [] else JNull)"
proof (cases "truthy (getProp plan1 ''category'')")
  case True
  then show ?thesis
    using includes_truthy [OF assms] by (auto simp: routeCategory_def Let_def)
next
  case False
  then have "norm (getProp plan1 ''category'') = []" by (rule norm_falsy)
  with False show ?thesis
    using includes_truthy [OF assms] by (auto simp: routeCategory_def Let_def)
qed

lemma validateAndBuildPlan_filter_null:
  "\<not> ALLOWED_PARAMS_has (getProp a ''filterParam'') \<Longrightarrow>
   filterParam (validateAndBuildPlan a u cats) = JNull"
  by (simp add: validateAndBuildPlan_def Let_def js_or_def)

lemma validated_twoStage_filter_null:
  "\<not> ALLOWED_PARAMS_has (getProp plan2 ''filterParam'') \<Longrightarrow>
   filterParam (validatePlanParams (buildQueryPlan plan1 plan2 u c)) = JNull"
  by (simp add: validatePlanParams_def buildQueryPlan_def Let_def js_or_def)

lemma validated_twoStage_urn:
  "urn (validatePlanParams (buildQueryPlan plan1 plan2 u c)) = u"
  by (simp add: validatePlanParams_def buildQueryPlan_def Let_def)

section \<open>Facts about the query compiler\<close>

lemma whereClauses_twoStage_no_filter:
  "\<not> truthy (filterParam p) \<Longrightarrow>
   whereClauses_twoStage m p cand =
     (''urn = ?'' #
        (case cand of None \<Rightarrow> []
         | Some ids \<Rightarrow> if ids = [] then []
             else [''id IN ('' @ join '','' (map show_int ids) @ '')''])
        @ (if truthy (category p) \<and> norm (category p) \<noteq> [] then [categoryField m @ '' = ?'']
           else []),
      urn p # (if truthy (category p) \<and> norm (category p) \<noteq> [] then [JStr (norm (category p))]
               else []))"
  by (cases cand) (simp_all add: whereClauses_twoStage_def Let_def)

lemma whereClauses_unified_no_filter:
  "\<not> truthy (filterParam p) \<Longrightarrow>
   whereClauses_unified m p =
     (''urn = ?'' #
        (if truthy (category p) \<and> norm (category p) \<noteq> [] then [categoryField m @ '' = ?'']
         else []),
      urn p # (if truthy (category p) \<and> norm (category p) \<noteq> [] then [JStr (norm (category p))]
               else []))"
  by (simp add: whereClauses_unified_def Let_def)

lemma whereClauses_twoStage_None:
  "whereClauses_twoStage m p None = whereClauses_unified m (plan.truncate p)"
  by (simp add: whereClauses_twoStage_def whereClauses_unified_def plan.truncate_def Let_def)

lemmas plan_eval =
  validatePlanParams_def buildQueryPlan_def validateAndBuildPlan_def routeCategory_def
  whereClauses_twoStage_def whereClauses_unified_def whereClause_twoStage_def
  whereClause_unified_def getProp_def js_or_def js_nullish_def find_js_def includes_js_def
  ALLOWED_PARAMS_has_def ALLOWED_PARAMS_def DEFAULT_LIMIT_def DEFAULT_TOP_K_def
  norm_def trim_def is_space_def ws_chars_def toLowerCase_def lower_char_def upper_chars_def
  lower_chars_def show_int_def sample_meta_def Let_def

section \<open>Facts about metadata discovery\<close>

lemma scanDocs_twoStage_skip:
  "scanDocs_twoStage e docs s
     = scanDocs_twoStage e (filter (\<lambda>d. truthy (getProp d ''props_flat'')) docs) s"
  by (induction docs arbitrary: s) (auto split: sum.splits)

lemma scanDocs_unified_skip:
  "scanDocs_unified e docs s
     = scanDocs_unified e (filter (\<lambda>d. truthy (getProp d ''props_flat'')) docs) s"
  by (induction docs arbitrary: s) (auto split: sum.splits)

lemma scanDocs_twoStage_ok:
  "(\<forall>d\<in>set docs. truthy (getProp d ''props_flat'') \<longrightarrow>
      (\<exists>ks. JSON_parse_keys e (toString (getProp d ''props_flat'')) = Inr ks))
   \<Longrightarrow> \<exists>r. scanDocs_twoStage e docs s = Inr r"
  by (induction docs arbitrary: s) (auto split: sum.splits)

lemma scanDocs_unified_ok:
  "(\<forall>d\<in>set docs. truthy (getProp d ''props_flat'') \<longrightarrow>
      (\<exists>ks. JSON_parse_keys e (toString (getProp d ''props_flat'')) = Inr ks))
   \<Longrightarrow> \<exists>r. scanDocs_unified e docs s = Inr r"
  by (induction docs arbitrary: s) (auto split: sum.splits)

lemma scanDocs_twoStage_fail:
  "d \<in> set docs \<Longrightarrow> truthy (getProp d ''props_flat'') \<Longrightarrow>
   JSON_parse_keys e (toString (getProp d ''props_flat'')) = Inl err
   \<Longrightarrow> \<exists>err'. scanDocs_twoStage e docs s = Inl err'"
  by (induction docs arbitrary: s) (auto split: sum.splits)

lemma scanDocs_unified_fail:
  "d \<in> set docs \<Longrightarrow> truthy (getProp d ''props_flat'') \<Longrightarrow>
   JSON_parse_keys e (toString (getProp d ''props_flat'')) = Inl err
   \<Longrightarrow> \<exists>err'. scanDocs_unified e docs s = Inl err'"
proof (induction docs arbitrary: s)
  case Nil
  then show ?case by simp
next
  case (Cons x xs)
  show ?case
  proof (cases "x = d")
    case True
    with Cons.prems show ?thesis by simp
  next
    case False
    with Cons.prems have "d \<in> set xs" by simp
    then have "\<And>t. \<exists>err'. scanDocs_unified e xs t = Inl err'"
      using Cons.IH Cons.prems by blast
    then show ?thesis by (simp split: sum.splits)
  qed
qed

lemma getMeta_twoStage_categories:
  "getMeta_twoStage e u = Inr m \<Longrightarrow> [] \<notin> set (categories m)"
  by (auto simp: getMeta_twoStage_def stripEmpty_nonempty split: sum.splits)

lemma getMeta_unified_categories:
  "getMeta_unified e u = Inr m \<Longrightarrow> [] \<notin> set (categories m)"
  by (auto simp: getMeta_unified_def stripEmpty_nonempty split: sum.splits prod.splits)

lemma sampleLoop_empty:
  "(\<And>k. k \<in> set ks \<Longrightarrow> db_all e (sql k) [u] = Inr []) \<Longrightarrow>
   sampleLoop e sql u ks = Inr (map (\<lambda>k. (k, [])) ks)"
  by (induction ks) (simp_all add: stripEmpty_def)

section \<open>Evaluation of the sample collaborators\<close>

lemma sample_db_docs_unified:
  "db_all (sample_env docs rows ra rb) ''SELECT props_flat FROM elements WHERE urn = ?'' ps
     = Inr docs"
  by (simp add: sample_env_def)

lemma sample_db_docs_twoStage:
  "db_all (sample_env docs rows ra rb) ''SELECT props_flat FROM elements WHERE urn = ? LIMIT 50'' ps
     = Inr docs"
  by (simp add: sample_env_def)

lemma sample_db_categories:
  "db_all (sample_env docs rows ra rb) categoriesSql ps
     = Inr [[(''component_type'', JStr ''Doors'')]]"
  by (simp add: sample_env_def categoriesSql_def)

lemma sample_db_samples_unified:
  "k \<in> set SAMPLE_KEYS \<Longrightarrow> db_all (sample_env docs rows ra rb) (sampleSql_unified k) ps = Inr []"
  by (auto simp: sample_env_def SAMPLE_KEYS_def sampleSql_unified_def categoriesSql_def)

lemma sample_db_samples_twoStage:
  "k \<in> set SAMPLE_KEYS \<Longrightarrow> db_all (sample_env docs rows ra rb) (sampleSql_twoStage k) ps = Inr []"
  by (auto simp: sample_env_def SAMPLE_KEYS_def sampleSql_unified_def sampleSql_twoStage_def
      categoriesSql_def)

lemma sample_categories:
  "stripEmpty [getProp [(''component_type'', JStr ''Doors'')] ''component_type''] = [''Doors'']"
  by (simp add: stripEmpty_def getProp_def norm_def js_or_def trim_def is_space_def ws_chars_def)

lemma sample_getMeta_unified:
  "scanDocs_unified (sample_env docs rows ra rb) docs ([], []) = Inr (ak, vk) \<Longrightarrow>
   getMeta_unified (sample_env docs rows ra rb) u =
     Inr \<lparr> categoryField = ''component_type'', categories = [''Doors''],
           paramSamples = map (\<lambda>k. (k, [])) SAMPLE_KEYS, areaKeys = ak, volumeKeys = vk \<rparr>"
  by (simp add: getMeta_unified_def sample_db_docs_unified sample_db_categories
      sampleLoop_empty [OF sample_db_samples_unified] sample_categories)

lemma sample_getMeta_twoStage:
  "scanDocs_twoStage (sample_env docs rows ra rb) docs [] = Inr ak \<Longrightarrow>
   getMeta_twoStage (sample_env docs rows ra rb) u = Inr (sample_meta\<lparr>areaKeys := take 200 ak\<rparr>)"
  by (simp add: getMeta_twoStage_def sample_db_docs_twoStage sample_db_categories
      sampleLoop_empty [OF sample_db_samples_twoStage] sample_categories sample_meta_def)

lemma sample_getMeta_unified_fail:
  "scanDocs_unified (sample_env docs rows ra rb) docs ([], []) = Inl err \<Longrightarrow>
   getMeta_unified (sample_env docs rows ra rb) u = Inl err"
  by (simp add: getMeta_unified_def sample_db_docs_unified sample_db_categories
      sampleLoop_empty [OF sample_db_samples_unified])

lemma sample_getMeta_twoStage_fail:
  "scanDocs_twoStage (sample_env docs rows ra rb) docs [] = Inl err \<Longrightarrow>
   getMeta_twoStage (sample_env docs rows ra rb) u = Inl err"
  by (simp add: getMeta_twoStage_def sample_db_docs_twoStage sample_db_categories
      sampleLoop_empty [OF sample_db_samples_twoStage])

lemma sample_parse_blob:
  "JSON_parse_keys (sample_env docs rows ra rb) sample_blob = Inr [''Floor Area'']"
  by (simp add: sample_env_def)

lemma sample_parse_other:
  "s \<noteq> sample_blob \<Longrightarrow>
   JSON_parse_keys (sample_env docs rows ra rb) s = Inl (SyntaxError ''Unexpected token'')"
  by (simp add: sample_env_def)

lemma bad_blob_not_sample: "''{not json'' \<noteq> sample_blob"
  by (simp add: sample_blob_def)

lemma sample_blob_truthy: "sample_blob \<noteq> []"
  by (simp add: sample_blob_def)

lemma area_Floor_Area: "regex_i_test ''area'' ''Floor Area''"
  by (simp add: lower_char_def upper_chars_def lower_chars_def)

lemma volume_Floor_Area: "\<not> regex_i_test ''volume'' ''Floor Area''"
  by (simp add: lower_char_def upper_chars_def lower_chars_def)

lemma sample_scan_unified_good:
  "scanDocs_unified (sample_env docs rows ra rb)
     [[(''props_flat'', JNull)], [(''props_flat'', JStr sample_blob)]] ([], [])
   = Inr ([''Floor Area''], [])"
  by (simp add: getProp_def sample_blob_truthy sample_parse_blob area_Floor_Area
      volume_Floor_Area set_add_def del: regex_i_test.simps)

lemma sample_scan_twoStage_good:
  "scanDocs_twoStage (sample_env docs rows ra rb)
     [[(''props_flat'', JNull)], [(''props_flat'', JStr sample_blob)]] []
   = Inr [''Floor Area'']"
  by (simp add: getProp_def sample_blob_truthy sample_parse_blob area_Floor_Area
      addMatching_def set_add_def del: regex_i_test.simps)

lemma sample_scan_unified_bad:
  "scanDocs_unified (sample_env docs rows ra rb)
     [[(''props_flat'', JStr ''{not json'')], [(''props_flat'', JStr sample_blob)]] ([], [])
   = Inl (SyntaxError ''Unexpected token'')"
  by (simp add: getProp_def sample_parse_other [OF bad_blob_not_sample])

lemma sample_scan_twoStage_bad:
  "scanDocs_twoStage (sample_env docs rows ra rb)
     [[(''props_flat'', JStr ''{not json'')], [(''props_flat'', JStr sample_blob)]] []
   = Inl (SyntaxError ''Unexpected token'')"
  by (simp add: getProp_def sample_parse_other [OF bad_blob_not_sample])


section \<open>Facts about the dispatch of \<open>runQuery\<close> and the route handlers\<close>

lemma runQuery_twoStage_distinct:
  "task p = JStr ''distinct'' \<Longrightarrow>
   runQuery_twoStage e m p q =
     handleDistinctTask_twoStage e (whereClause_twoStage m p (semanticCandidates e p))
       (snd (whereClauses_twoStage m p (semanticCandidates e p))) (targetParam p)
       (if isFinite (limit p) then limit p else DEFAULT_LIMIT)"
  by (simp add: runQuery_twoStage_def Let_def)

lemma runQuery_twoStage_group:
  "task p = JStr ''group_count'' \<Longrightarrow>
   runQuery_twoStage e m p q =
     handleGroupCountTask_twoStage e (whereClause_twoStage m p (semanticCandidates e p))
       (snd (whereClauses_twoStage m p (semanticCandidates e p))) (targetParam p)
       (if isFinite (limit p) then limit p else DEFAULT_LIMIT)"
  by (simp add: runQuery_twoStage_def Let_def)

lemma runQuery_unified_distinct:
  "task p = JStr ''distinct'' \<Longrightarrow>
   runQuery_unified e m p q =
     handleDistinctTask_unified e (whereClause_unified m p)
       (snd (whereClauses_unified m p)) (targetParam p)"
  by (simp add: runQuery_unified_def Let_def)

lemma runQuery_unified_group:
  "task p = JStr ''group_count'' \<Longrightarrow>
   runQuery_unified e m p q =
     handleGroupCountTask_unified e (whereClause_unified m p)
       (snd (whereClauses_unified m p)) (targetParam p)"
  by (simp add: runQuery_unified_def Let_def)

lemma handleDistinctTask_twoStage_null:
  "handleDistinctTask_twoStage e w ps JNull l = Inl (Error ''distinct requires targetParam'')"
  by (simp add: handleDistinctTask_twoStage_def)

lemma handleDistinctTask_unified_null:
  "handleDistinctTask_unified e w ps JNull = Inl (Error ''distinct requires targetParam'')"
  by (simp add: handleDistinctTask_unified_def)

lemma handleGroupCountTask_twoStage_null:
  "handleGroupCountTask_twoStage e w ps JNull l = Inl (Error ''group_count requires targetParam'')"
  by (simp add: handleGroupCountTask_twoStage_def)

lemma handleGroupCountTask_unified_null:
  "handleGroupCountTask_unified e w ps JNull = Inl (Error ''group_count requires targetParam'')"
  by (simp add: handleGroupCountTask_unified_def)

lemmas handler_null =
  handleDistinctTask_twoStage_null handleDistinctTask_unified_null
  handleGroupCountTask_twoStage_null handleGroupCountTask_unified_null

lemma post_unified_runQuery_error:
  "truthy (getProp body ''urn'') \<Longrightarrow> truthy (getProp body ''question'') \<Longrightarrow>
   getMeta_unified e (getProp body ''urn'') = Inr mu \<Longrightarrow>
   geminiJson e (AnalysisPrompt (getProp body ''question'') mu) = Inr a \<Longrightarrow>
   getProp a ''intent'' \<noteq> JStr ''general'' \<Longrightarrow>
   runQuery_unified e mu (validateAndBuildPlan a (getProp body ''urn'') (categories mu))
     (getProp body ''question'') = Inl err \<Longrightarrow>
   post_unified e body = NextError err"
  by (simp add: post_unified_def Let_def)

lemma post_twoStage_runQuery_error:
  "truthy (getProp body ''urn'') \<Longrightarrow> truthy (getProp body ''question'') \<Longrightarrow>
   getMeta_twoStage e (getProp body ''urn'') = Inr mt \<Longrightarrow>
   geminiJson e (IntentPrompt (getProp body ''question'') (categories mt)
       (detectHintCategory e (getProp body ''question'') (categories mt))) = Inr plan1 \<Longrightarrow>
   getProp plan1 ''intent'' \<noteq> JStr ''general'' \<Longrightarrow>
   geminiJson e (ParameterPrompt (getProp body ''question'') plan1
       (routeCategory plan1 (detectHintCategory e (getProp body ''question'') (categories mt))
          (categories mt))
       (paramSamples mt) (areaKeys mt)) = Inr plan2 \<Longrightarrow>
   runQuery_twoStage e mt
     (validatePlanParams (buildQueryPlan plan1 plan2 (getProp body ''urn'')
        (routeCategory plan1 (detectHintCategory e (getProp body ''question'') (categories mt))
          (categories mt))))
     (getProp body ''question'') = Inl err \<Longrightarrow>
   post_twoStage e body = NextError err"
  by (simp add: post_twoStage_def Let_def)

lemma semanticCandidates_off:
  "semanticCandidates e (p\<lparr>useSemanticSearch := JBool False\<rparr>) = None"
  by (simp add: semanticCandidates_def)

lemma runQuery_twoStage_unrestricted:
  "semanticCandidates e p = None \<Longrightarrow>
   runQuery_twoStage e m p q = runQuery_twoStage e m (p\<lparr>useSemanticSearch := JBool False\<rparr>) q"
  by (simp add: runQuery_twoStage_def Let_def whereClause_twoStage_def whereClauses_twoStage_def
      handleSumAreaTask_twoStage_def plan.truncate_def semanticCandidates_off
      cong: sum.case_cong)

lemma whereClauses_twoStage_Nil:
  "whereClauses_twoStage m p (Some []) = whereClauses_twoStage m p None"
  by (simp add: whereClauses_twoStage_def Let_def)

lemma whereClauses_twoStage_ids:
  "ids \<noteq> [] \<Longrightarrow>
   whereClauses_twoStage m p (Some ids) =
     (''urn = ?'' # (''id IN ('' @ join '','' (map show_int ids) @ '')'')
        # tl (fst (whereClauses_unified m (plan.truncate p))),
      snd (whereClauses_unified m (plan.truncate p)))"
  by (simp add: whereClauses_twoStage_def whereClauses_unified_def plan.truncate_def Let_def)

lemma runQuery_twoStage_no_candidates:
  "semanticCandidates e p = Some [] \<Longrightarrow>
   runQuery_twoStage e m p q = runQuery_twoStage e m (p\<lparr>useSemanticSearch := JBool False\<rparr>) q"
  by (simp add: runQuery_twoStage_def Let_def whereClause_twoStage_def whereClauses_twoStage_def
      handleSumAreaTask_twoStage_def plan.truncate_def semanticCandidates_off
      cong: sum.case_cong)

lemma distinctValues_trimmed:
  "v \<in> set (distinctValues f rows) \<Longrightarrow> v \<noteq> [] \<and> trim v = v"
  by (auto simp: distinctValues_def norm_trimmed)

lemma distinctValues_distinct:
  "distinct (map (\<lambda>r. norm (getProp r (toString f))) rows) \<Longrightarrow> distinct (distinctValues f rows)"
  unfolding distinctValues_def by (rule distinct_filter)


section \<open>The claims\<close>

text \<open>
  Claim C1. For every raw plan whose \<open>filterParam\<close> (or \<open>targetParam\<close>) is non-null and
  not in the allow-list, the validated plan has that field set to \<open>null\<close>, and the compiled
  WHERE clause has no attribute-equality clause for it. The raw plan is what the reasoning
  service returned: \<open>plan2\<close> in the two-stage variant, validated by \<open>buildQueryPlan\<close> and
  \<open>validatePlanParams\<close>; \<open>a\<close> in the unified variant, validated by
  \<open>validateAndBuildPlan\<close>. The compiled clauses are then exactly the model scope, the
  candidate ids and the category, with their bound parameters.
\<close>

theorem disallowed_param_nulled:
  "(getProp planP ''filterParam'' \<noteq> JNull \<and> \<not> ALLOWED_PARAMS_has (getProp planP ''filterParam'') \<longrightarrow>
      filterParam (validatePlanParams (buildQueryPlan planI planP u c)) = JNull
    \<and> whereClauses_twoStage m (validatePlanParams (buildQueryPlan planI planP u c)) cand =
        (''urn = ?'' #
           (case cand of None \<Rightarrow> []
            | Some ids \<Rightarrow> if ids = [] then []
                else [''id IN ('' @ join '','' (map show_int ids) @ '')''])
           @ (if truthy c \<and> norm c \<noteq> [] then [categoryField m @ '' = ?''] else []),
         u # (if truthy c \<and> norm c \<noteq> [] then [JStr (norm c)] else [])))
   \<and> (getProp planP ''targetParam'' \<noteq> JNull \<and> \<not> ALLOWED_PARAMS_has (getProp planP ''targetParam'') \<longrightarrow>
      targetParam (validatePlanParams (buildQueryPlan planI planP u c)) = JNull)
   \<and> (getProp a ''filterParam'' \<noteq> JNull \<and> \<not> ALLOWED_PARAMS_has (getProp a ''filterParam'') \<longrightarrow>
      filterParam (validateAndBuildPlan a u cats) = JNull
    \<and> whereClauses_unified m (validateAndBuildPlan a u cats) =
        (''urn = ?'' #
           (if truthy (category (validateAndBuildPlan a u cats))
               \<and> norm (category (validateAndBuildPlan a u cats)) \<noteq> []
            then [categoryField m @ '' = ?''] else []),
         u # (if truthy (category (validateAndBuildPlan a u cats))
               \<and> norm (category (validateAndBuildPlan a u cats)) \<noteq> []
              then [JStr (norm (category (validateAndBuildPlan a u cats)))] else [])))
   \<and> (getProp a ''targetParam'' \<noteq> JNull \<and> \<not> ALLOWED_PARAMS_has (getProp a ''targetParam'') \<longrightarrow>
      targetParam (validateAndBuildPlan a u cats) = JNull)"
proof (intro conjI impI)
  let ?p = "validatePlanParams (buildQueryPlan planI planP u c)"
  assume "getProp planP ''filterParam'' \<noteq> JNull
    \<and> \<not> ALLOWED_PARAMS_has (getProp planP ''filterParam'')"
  then have n: "filterParam ?p = JNull"
    by (simp add: validated_twoStage_filter_null)
  then show "filterParam ?p = JNull" .
  from n have nt: "\<not> truthy (filterParam ?p)" by simp
  show "whereClauses_twoStage m ?p cand =
        (''urn = ?'' #
           (case cand of None \<Rightarrow> []
            | Some ids \<Rightarrow> if ids = [] then []
                else [''id IN ('' @ join '','' (map show_int ids) @ '')''])
           @ (if truthy c \<and> norm c \<noteq> [] then [categoryField m @ '' = ?''] else []),
         u # (if truthy c \<and> norm c \<noteq> [] then [JStr (norm c)] else []))"
    using whereClauses_twoStage_no_filter [OF nt, of m cand]
    by (simp only: validated_twoStage_category validated_twoStage_urn)
next
  assume "getProp planP ''targetParam'' \<noteq> JNull
    \<and> \<not> ALLOWED_PARAMS_has (getProp planP ''targetParam'')"
  then show "targetParam (validatePlanParams (buildQueryPlan planI planP u c)) = JNull"
    by (simp add: validated_twoStage_target_null)
next
  let ?q = "validateAndBuildPlan a u cats"
  assume "getProp a ''filterParam'' \<noteq> JNull
    \<and> \<not> ALLOWED_PARAMS_has (getProp a ''filterParam'')"
  then have n: "filterParam ?q = JNull"
    by (simp add: validateAndBuildPlan_filter_null)
  then show "filterParam ?q = JNull" .
  from n have nt: "\<not> truthy (filterParam ?q)" by simp
  show "whereClauses_unified m ?q =
        (''urn = ?'' #
           (if truthy (category ?q) \<and> norm (category ?q) \<noteq> []
            then [categoryField m @ '' = ?''] else []),
         u # (if truthy (category ?q) \<and> norm (category ?q) \<noteq> []
              then [JStr (norm (category ?q))] else []))"
    using whereClauses_unified_no_filter [OF nt, of m]
    by (simp only: validateAndBuildPlan_urn)
next
  assume "getProp a ''targetParam'' \<noteq> JNull
    \<and> \<not> ALLOWED_PARAMS_has (getProp a ''targetParam'')"
  then show "targetParam (validateAndBuildPlan a u cats) = JNull"
    by (simp add: validateAndBuildPlan_target_null)
qed


text \<open>
  The reasoning service asks to filter on the column \<open>guid\<close> and to enumerate an injected
  identifier; neither is in the allow-list.
\<close>

theorem disallowed_param_nulled_witness:
  "getProp [(''filterParam'', JStr ''guid''), (''filterValue'', JStr ''abc''),
            (''targetParam'', JStr ''name; DROP TABLE elements'')] ''filterParam'' \<noteq> JNull
   \<and> \<not> ALLOWED_PARAMS_has
        (getProp [(''filterParam'', JStr ''guid''), (''filterValue'', JStr ''abc''),
                  (''targetParam'', JStr ''name; DROP TABLE elements'')] ''filterParam'')
   \<and> getProp [(''filterParam'', JStr ''guid''), (''filterValue'', JStr ''abc''),
              (''targetParam'', JStr ''name; DROP TABLE elements'')] ''targetParam'' \<noteq> JNull
   \<and> \<not> ALLOWED_PARAMS_has
        (getProp [(''filterParam'', JStr ''guid''), (''filterValue'', JStr ''abc''),
                  (''targetParam'', JStr ''name; DROP TABLE elements'')] ''targetParam'')
   \<and> filterParam (validatePlanParams (buildQueryPlan [(''task'', JStr ''distinct'')]
        [(''filterParam'', JStr ''guid''), (''filterValue'', JStr ''abc''),
         (''targetParam'', JStr ''name; DROP TABLE elements'')] (JStr ''u1'') (JStr ''Doors''))) = JNull
   \<and> targetParam (validatePlanParams (buildQueryPlan [(''task'', JStr ''distinct'')]
        [(''filterParam'', JStr ''guid''), (''filterValue'', JStr ''abc''),
         (''targetParam'', JStr ''name; DROP TABLE elements'')] (JStr ''u1'') (JStr ''Doors''))) = JNull
   \<and> whereClauses_twoStage sample_meta (validatePlanParams (buildQueryPlan [(''task'', JStr ''distinct'')]
        [(''filterParam'', JStr ''guid''), (''filterValue'', JStr ''abc''),
         (''targetParam'', JStr ''name; DROP TABLE elements'')] (JStr ''u1'') (JStr ''Doors'')))
        (Some [3, 5])
       = ([''urn = ?'', ''id IN (3,5)'', ''component_type = ?''], [JStr ''u1'', JStr ''Doors''])
   \<and> filterParam (validateAndBuildPlan
        [(''filterParam'', JStr ''guid''), (''filterValue'', JStr ''abc''),
         (''targetParam'', JStr ''name; DROP TABLE elements'')] (JStr ''u1'') [''Doors'']) = JNull
   \<and> targetParam (validateAndBuildPlan
        [(''filterParam'', JStr ''guid''), (''filterValue'', JStr ''abc''),
         (''targetParam'', JStr ''name; DROP TABLE elements'')] (JStr ''u1'') [''Doors'']) = JNull
   \<and> whereClauses_unified sample_meta (validateAndBuildPlan
        [(''filterParam'', JStr ''guid''), (''filterValue'', JStr ''abc''),
         (''targetParam'', JStr ''name; DROP TABLE elements'')] (JStr ''u1'') [''Doors''])
       = ([''urn = ?''], [JStr ''u1''])"
proof -
  let ?raw = "[(''filterParam'', JStr ''guid''), (''filterValue'', JStr ''abc''),
               (''targetParam'', JStr ''name; DROP TABLE elements'')]"
  have h: "getProp ?raw ''filterParam'' \<noteq> JNull"
    "\<not> ALLOWED_PARAMS_has (getProp ?raw ''filterParam'')"
    "getProp ?raw ''targetParam'' \<noteq> JNull"
    "\<not> ALLOWED_PARAMS_has (getProp ?raw ''targetParam'')"
    by (simp_all add: getProp_def ALLOWED_PARAMS_has_def ALLOWED_PARAMS_def)
  have c: "truthy (JStr ''Doors'')" "norm (JStr ''Doors'') = ''Doors''"
    "category (validateAndBuildPlan ?raw (JStr ''u1'') [''Doors'']) = JNull"
    "categoryField sample_meta = ''component_type''"
    by (simp_all add: plan_eval)
  have j: "join '','' (map show_int [3, 5]) = ''3,5''"
    by (simp add: show_int_def)
  show ?thesis
    using h c j
      disallowed_param_nulled [where planP = ?raw and a = ?raw and u = "JStr ''u1''"
        and c = "JStr ''Doors''" and planI = "[(''task'', JStr ''distinct'')]"
        and m = sample_meta and cand = "Some [3, 5]" and cats = "[''Doors'']"]
    by simp
qed


text \<open>
  Claim C2, as stated: two validated plans that differ only in \<open>filterValue\<close> compile to
  the same SQL filter text. It fails: the attribute clause is emitted only when
  \<open>filterValue\<close> is present and non-blank, so a plan with the \<open>filterValue\<close> 3 and the same
  plan with the \<open>filterValue\<close> \<open>null\<close> compile to different texts. Both plans below are
  validated plans (the second is what the validator returns for the raw plan with \<open>null\<close>).
\<close>

theorem filterValue_text_counterexample:
  "whereClause_unified sample_meta
      (validateAndBuildPlan
         [(''task'', JStr ''count''), (''filterParam'', JStr ''level_number''),
          (''filterValue'', JStr ''3'')]
         (JStr ''u1'') [''Doors''])
    = ''urn = ? AND level_number = ?''
   \<and> whereClause_unified sample_meta
      (validateAndBuildPlan
         [(''task'', JStr ''count''), (''filterParam'', JStr ''level_number''),
          (''filterValue'', JStr ''3'')]
         (JStr ''u1'') [''Doors''] \<lparr>filterValue := JNull\<rparr>)
    = ''urn = ?''
   \<and> validateAndBuildPlan
         [(''task'', JStr ''count''), (''filterParam'', JStr ''level_number''),
          (''filterValue'', JNull)]
         (JStr ''u1'') [''Doors'']
     = validateAndBuildPlan
         [(''task'', JStr ''count''), (''filterParam'', JStr ''level_number''),
          (''filterValue'', JStr ''3'')]
         (JStr ''u1'') [''Doors''] \<lparr>filterValue := JNull\<rparr>"
  by (simp add: plan_eval)

text \<open>
  Claim C2, amended. For every pair of plans that differ only in \<open>filterValue\<close>, where both
  values are present and non-blank or neither is, the compiled SQL filter text is identical,
  in both variants. The value itself never enters the text: when the clause is emitted the
  value is the last bound parameter, after the parameters of the plan without it.
\<close>

theorem filterValue_only_bound:
  "((va \<noteq> JUndefined \<and> va \<noteq> JNull \<and> trim (toString va) \<noteq> [])
      = (vb \<noteq> JUndefined \<and> vb \<noteq> JNull \<and> trim (toString vb) \<noteq> []) \<longrightarrow>
      whereClause_twoStage m (p\<lparr>filterValue := va\<rparr>) cand
        = whereClause_twoStage m (p\<lparr>filterValue := vb\<rparr>) cand
    \<and> whereClause_unified m (q\<lparr>filterValue := va\<rparr>)
        = whereClause_unified m (q\<lparr>filterValue := vb\<rparr>))
   \<and> (truthy (filterParam p) \<and> va \<noteq> JUndefined \<and> va \<noteq> JNull \<and> trim (toString va) \<noteq> [] \<longrightarrow>
      snd (whereClauses_twoStage m (p\<lparr>filterValue := va\<rparr>) cand)
        = snd (whereClauses_twoStage m (p\<lparr>filterValue := JNull\<rparr>) cand) @ [va])
   \<and> (truthy (filterParam q) \<and> va \<noteq> JUndefined \<and> va \<noteq> JNull \<and> trim (toString va) \<noteq> [] \<longrightarrow>
      snd (whereClauses_unified m (q\<lparr>filterValue := va\<rparr>))
        = snd (whereClauses_unified m (q\<lparr>filterValue := JNull\<rparr>)) @ [va])"
proof (intro conjI impI)
  assume e: "(va \<noteq> JUndefined \<and> va \<noteq> JNull \<and> trim (toString va) \<noteq> [])
      = (vb \<noteq> JUndefined \<and> vb \<noteq> JNull \<and> trim (toString vb) \<noteq> [])"
  then have "fst (whereClauses_twoStage m (p\<lparr>filterValue := va\<rparr>) cand)
      = fst (whereClauses_twoStage m (p\<lparr>filterValue := vb\<rparr>) cand)"
    by (cases cand) (simp_all add: whereClauses_twoStage_def Let_def)
  then show "whereClause_twoStage m (p\<lparr>filterValue := va\<rparr>) cand
        = whereClause_twoStage m (p\<lparr>filterValue := vb\<rparr>) cand"
    by (simp only: whereClause_twoStage_def)
  from e have "fst (whereClauses_unified m (q\<lparr>filterValue := va\<rparr>))
      = fst (whereClauses_unified m (q\<lparr>filterValue := vb\<rparr>))"
    by (simp add: whereClauses_unified_def Let_def)
  then show "whereClause_unified m (q\<lparr>filterValue := va\<rparr>)
        = whereClause_unified m (q\<lparr>filterValue := vb\<rparr>)"
    by (simp only: whereClause_unified_def)
next
  assume "truthy (filterParam p) \<and> va \<noteq> JUndefined \<and> va \<noteq> JNull \<and> trim (toString va) \<noteq> []"
  then show "snd (whereClauses_twoStage m (p\<lparr>filterValue := va\<rparr>) cand)
        = snd (whereClauses_twoStage m (p\<lparr>filterValue := JNull\<rparr>) cand) @ [va]"
    by (simp add: whereClauses_twoStage_def Let_def)
next
  assume "truthy (filterParam q) \<and> va \<noteq> JUndefined \<and> va \<noteq> JNull \<and> trim (toString va) \<noteq> []"
  then show "snd (whereClauses_unified m (q\<lparr>filterValue := va\<rparr>))
        = snd (whereClauses_unified m (q\<lparr>filterValue := JNull\<rparr>)) @ [va]"
    by (simp add: whereClauses_unified_def Let_def)
qed

text \<open>Level 3 against level 12, on the validated plan of the counterexample.\<close>

theorem filterValue_only_bound_witness:
  "((JStr ''3'' \<noteq> JUndefined \<and> JStr ''3'' \<noteq> JNull \<and> trim (toString (JStr ''3'')) \<noteq> [])
      = (JStr ''12'' \<noteq> JUndefined \<and> JStr ''12'' \<noteq> JNull \<and> trim (toString (JStr ''12'')) \<noteq> []))
   \<and> truthy (filterParam (validateAndBuildPlan
         [(''task'', JStr ''count''), (''filterParam'', JStr ''level_number'')]
         (JStr ''u1'') [''Doors'']))
   \<and> whereClause_unified sample_meta
        (validateAndBuildPlan
           [(''task'', JStr ''count''), (''filterParam'', JStr ''level_number'')]
           (JStr ''u1'') [''Doors''] \<lparr>filterValue := JStr ''3''\<rparr>)
      = whereClause_unified sample_meta
        (validateAndBuildPlan
           [(''task'', JStr ''count''), (''filterParam'', JStr ''level_number'')]
           (JStr ''u1'') [''Doors''] \<lparr>filterValue := JStr ''12''\<rparr>)
   \<and> snd (whereClauses_unified sample_meta
        (validateAndBuildPlan
           [(''task'', JStr ''count''), (''filterParam'', JStr ''level_number'')]
           (JStr ''u1'') [''Doors''] \<lparr>filterValue := JStr ''3''\<rparr>))
      = [JStr ''u1'', JStr ''3'']"
proof -
  let ?q = "validateAndBuildPlan
         [(''task'', JStr ''count''), (''filterParam'', JStr ''level_number'')]
         (JStr ''u1'') [''Doors'']"
  have h: "(JStr ''3'' \<noteq> JUndefined \<and> JStr ''3'' \<noteq> JNull \<and> trim (toString (JStr ''3'')) \<noteq> [])
      = (JStr ''12'' \<noteq> JUndefined \<and> JStr ''12'' \<noteq> JNull \<and> trim (toString (JStr ''12'')) \<noteq> [])"
    by (simp add: trim_def is_space_def ws_chars_def)
  have k: "truthy (filterParam ?q)"
    "JStr ''3'' \<noteq> JUndefined \<and> JStr ''3'' \<noteq> JNull \<and> trim (toString (JStr ''3'')) \<noteq> []"
    by (simp_all add: plan_eval)
  have n: "snd (whereClauses_unified sample_meta (?q\<lparr>filterValue := JNull\<rparr>)) = [JStr ''u1'']"
    by (simp add: plan_eval)
  note t = filterValue_only_bound [where va = "JStr ''3''" and vb = "JStr ''12''" and q = ?q
      and m = sample_meta]
  from t h have 1: "whereClause_unified sample_meta (?q\<lparr>filterValue := JStr ''3''\<rparr>)
      = whereClause_unified sample_meta (?q\<lparr>filterValue := JStr ''12''\<rparr>)"
    by blast
  from t k have "snd (whereClauses_unified sample_meta (?q\<lparr>filterValue := JStr ''3''\<rparr>))
      = snd (whereClauses_unified sample_meta (?q\<lparr>filterValue := JNull\<rparr>)) @ [JStr ''3'']"
    by blast
  with n have 2: "snd (whereClauses_unified sample_meta (?q\<lparr>filterValue := JStr ''3''\<rparr>))
      = [JStr ''u1'', JStr ''3'']"
    by simp
  show ?thesis using h k(1) 1 2 by blast
qed


text \<open>
  Claim C3, as stated: a raw plan whose category is not an exact member of the available
  categories but matches one case-insensitively is validated to the canonical-cased member.
  It fails in the two-stage variant, whose route handler only trims the category of the
  intent step and whose \<open>validatePlanParams\<close> does not look at it: with \<open>Doors\<close> in
  the model, the category \<open>doors\<close> stays \<open>doors\<close> in the final plan.
\<close>

theorem category_case_twoStage_counterexample:
  "''doors'' \<notin> set [''Doors'']
   \<and> toLowerCase ''Doors'' = toLowerCase ''doors''
   \<and> category (validatePlanParams (buildQueryPlan
         [(''task'', JStr ''count''), (''category'', JStr ''doors'')] []
         (JStr ''u1'')
         (routeCategory [(''task'', JStr ''count''), (''category'', JStr ''doors'')] JNull
            [''Doors''])))
       = JStr ''doors''"
  by (simp add: plan_eval)

text \<open>
  Claim C3, amended. In the unified variant (\<open>validateAndBuildPlan\<close>), for every raw plan
  whose trimmed category is not an exact member of the model's available categories but
  equals one of them up to letter case, the validated plan's category is the first such
  member, in the casing the model has. The available categories come from \<open>getMeta\<close>, which
  never returns an empty category (\<open>stripEmpty_nonempty\<close>).
\<close>

theorem category_case_resolved:
  assumes "[] \<notin> set cats"
    and "norm (getProp a ''category'') \<notin> set cats"
    and "\<exists>c\<in>set cats. toLowerCase c = toLowerCase (norm (getProp a ''category''))"
  shows "\<exists>c\<in>set cats. toLowerCase c = toLowerCase (norm (getProp a ''category''))
           \<and> find (\<lambda>c. toLowerCase c = toLowerCase (norm (getProp a ''category''))) cats = Some c
           \<and> category (validateAndBuildPlan a u cats) = JStr c"
proof -
  let ?n = "norm (getProp a ''category'')"
  from assms(3) obtain c where c: "find (\<lambda>c. toLowerCase c = toLowerCase ?n) cats = Some c"
    "c \<in> set cats" "toLowerCase c = toLowerCase ?n"
    using find_first_match [of cats "\<lambda>c. toLowerCase c = toLowerCase ?n"] by blast
  from c(2) assms(1) have cne: "c \<noteq> []" by auto
  with c(3) have "?n \<noteq> []" by (auto simp: toLowerCase_def)
  then have t: "truthy (getProp a ''category'')" using norm_falsy by blast
  have ex: "find (\<lambda>c. c = ?n) cats = None"
    using assms(2) by (intro find_no_match) auto
  have "category (validateAndBuildPlan a u cats) = JStr c"
    using t ex c(1) cne by (simp add: validateAndBuildPlan_def Let_def find_js_def)
  with c show ?thesis by blast
qed

text \<open>The model has walls and doors; the reasoning service answers \<open>doors\<close>.\<close>

theorem category_case_resolved_witness:
  "[] \<notin> set [''Walls'', ''Doors'']
   \<and> norm (getProp [(''task'', JStr ''count''), (''category'', JStr ''doors'')] ''category'')
        \<notin> set [''Walls'', ''Doors'']
   \<and> toLowerCase ''Doors''
        = toLowerCase (norm (getProp [(''task'', JStr ''count''), (''category'', JStr ''doors'')]
            ''category''))
   \<and> category (validateAndBuildPlan [(''task'', JStr ''count''), (''category'', JStr ''doors'')]
        (JStr ''u1'') [''Walls'', ''Doors'']) = JStr ''Doors''"
proof -
  let ?a = "[(''task'', JStr ''count''), (''category'', JStr ''doors'')]"
  let ?cats = "[''Walls'', ''Doors'']"
  have n: "norm (getProp ?a ''category'') = ''doors''"
    by (simp add: plan_eval)
  have h1: "[] \<notin> set ?cats" by simp
  have h2: "norm (getProp ?a ''category'') \<notin> set ?cats"
    by (simp add: n)
  have l: "toLowerCase ''Doors'' = ''doors''" "toLowerCase ''Walls'' = ''walls''"
    "toLowerCase ''doors'' = ''doors''"
    by (simp_all add: toLowerCase_def lower_char_def upper_chars_def lower_chars_def)
  have h3: "\<exists>c\<in>set ?cats. toLowerCase c = toLowerCase (norm (getProp ?a ''category''))"
    by (simp add: n l)
  have f: "find (\<lambda>c. toLowerCase c = toLowerCase (norm (getProp ?a ''category''))) ?cats
      = Some ''Doors''"
    by (simp add: n l)
  from category_case_resolved [OF h1 h2 h3, of "JStr ''u1''"] f
  have "category (validateAndBuildPlan ?a (JStr ''u1'') ?cats) = JStr ''Doors''"
    by auto
  then show ?thesis using h1 h2 n l by simp
qed


text \<open>
  Claim C4, as stated: a raw plan whose category matches no available category, even
  case-insensitively, is validated to the category \<open>null\<close> and compiled without a category
  clause. It fails in the two-stage variant, which never compares the category with the
  model's categories: \<open>Doorz\<close> stays in the final plan and the category clause is emitted,
  bound to it.
\<close>

theorem category_unmatched_twoStage_counterexample:
  "toLowerCase ''Doors'' \<noteq> toLowerCase ''Doorz''
   \<and> category (validatePlanParams (buildQueryPlan
         [(''task'', JStr ''count''), (''category'', JStr ''Doorz'')] []
         (JStr ''u1'')
         (routeCategory [(''task'', JStr ''count''), (''category'', JStr ''Doorz'')] JNull
            [''Doors''])))
       = JStr ''Doorz''
   \<and> whereClauses_twoStage sample_meta
        (validatePlanParams (buildQueryPlan
           [(''task'', JStr ''count''), (''category'', JStr ''Doorz'')] []
           (JStr ''u1'')
           (routeCategory [(''task'', JStr ''count''), (''category'', JStr ''Doorz'')] JNull
              [''Doors''])))
        None
       = ([''urn = ?'', ''component_type = ?''], [JStr ''u1'', JStr ''Doorz''])"
  by (simp add: plan_eval)

text \<open>
  Claim C4, amended. In the unified variant (\<open>validateAndBuildPlan\<close>), for every raw plan
  whose trimmed category equals no available category, even up to letter case, the
  validated plan's category is \<open>null\<close>; validation does not fail: it returns the plan it
  returns for the same raw plan with the category \<open>null\<close>; and the compiled clauses are the
  model scope and, when present, the attribute filter, with no category clause.
\<close>

theorem category_unmatched_null:
  assumes "\<forall>c\<in>set cats. toLowerCase c \<noteq> toLowerCase (norm (getProp a ''category''))"
  shows "category (validateAndBuildPlan a u cats) = JNull
    \<and> validateAndBuildPlan a u cats = validateAndBuildPlan ((''category'', JNull) # a) u cats
    \<and> whereClauses_unified m (validateAndBuildPlan a u cats) =
        (''urn = ?'' #
           (if truthy (filterParam (validateAndBuildPlan a u cats))
               \<and> filterValue (validateAndBuildPlan a u cats) \<noteq> JUndefined
               \<and> filterValue (validateAndBuildPlan a u cats) \<noteq> JNull
               \<and> trim (toString (filterValue (validateAndBuildPlan a u cats))) \<noteq> []
            then [toString (filterParam (validateAndBuildPlan a u cats)) @ '' = ?''] else []),
         u #
           (if truthy (filterParam (validateAndBuildPlan a u cats))
               \<and> filterValue (validateAndBuildPlan a u cats) \<noteq> JUndefined
               \<and> filterValue (validateAndBuildPlan a u cats) \<noteq> JNull
               \<and> trim (toString (filterValue (validateAndBuildPlan a u cats))) \<noteq> []
            then [filterValue (validateAndBuildPlan a u cats)] else []))"
proof -
  let ?n = "norm (getProp a ''category'')"
  let ?q = "validateAndBuildPlan a u cats"
  have 1: "find (\<lambda>c. toLowerCase c = toLowerCase ?n) cats = None"
    using assms by (intro find_no_match) auto
  have 2: "find (\<lambda>c. c = ?n) cats = None"
    using assms by (intro find_no_match) auto
  have cat: "category ?q = JNull"
    using 1 2 by (simp add: validateAndBuildPlan_def Let_def find_js_def)
  have same: "?q = validateAndBuildPlan ((''category'', JNull) # a) u cats"
    using 1 2 by (simp add: validateAndBuildPlan_def Let_def find_js_def getProp_def)
  have w: "whereClauses_unified m ?q =
        (''urn = ?'' #
           (if truthy (filterParam ?q) \<and> filterValue ?q \<noteq> JUndefined
               \<and> filterValue ?q \<noteq> JNull \<and> trim (toString (filterValue ?q)) \<noteq> []
            then [toString (filterParam ?q) @ '' = ?''] else []),
         u #
           (if truthy (filterParam ?q) \<and> filterValue ?q \<noteq> JUndefined
               \<and> filterValue ?q \<noteq> JNull \<and> trim (toString (filterValue ?q)) \<noteq> []
            then [filterValue ?q] else []))"
    using cat validateAndBuildPlan_urn [of a u cats] by (simp add: whereClauses_unified_def Let_def)
  show ?thesis
    using cat same w by blast
qed

text \<open>The model has doors only; the reasoning service answers \<open>Doorz\<close>, on level 3.\<close>

theorem category_unmatched_null_witness:
  "toLowerCase ''Doors''
      \<noteq> toLowerCase (norm (getProp [(''category'', JStr ''Doorz''),
            (''filterParam'', JStr ''level_number''), (''filterValue'', JStr ''3'')] ''category''))
   \<and> category (validateAndBuildPlan [(''category'', JStr ''Doorz''),
        (''filterParam'', JStr ''level_number''), (''filterValue'', JStr ''3'')]
        (JStr ''u1'') [''Doors'']) = JNull
   \<and> whereClauses_unified sample_meta (validateAndBuildPlan [(''category'', JStr ''Doorz''),
        (''filterParam'', JStr ''level_number''), (''filterValue'', JStr ''3'')]
        (JStr ''u1'') [''Doors''])
      = ([''urn = ?'', ''level_number = ?''], [JStr ''u1'', JStr ''3''])"
proof -
  let ?a = "[(''category'', JStr ''Doorz''), (''filterParam'', JStr ''level_number''),
             (''filterValue'', JStr ''3'')]"
  let ?q = "validateAndBuildPlan ?a (JStr ''u1'') [''Doors'']"
  have h0: "toLowerCase ''Doors'' \<noteq> toLowerCase (norm (getProp ?a ''category''))"
    by (simp add: plan_eval)
  then have h: "\<forall>c\<in>set [''Doors'']. toLowerCase c \<noteq> toLowerCase (norm (getProp ?a ''category''))"
    by simp
  have v: "filterParam ?q = JStr ''level_number''" "filterValue ?q = JStr ''3''"
    by (simp_all add: plan_eval)
  have b: "trim (toString (JStr ''3'')) \<noteq> []"
    by (simp add: trim_def is_space_def ws_chars_def)
  note t = category_unmatched_null [OF h, of "JStr ''u1''" sample_meta]
  from t have 1: "category ?q = JNull" by blast
  from t have "whereClauses_unified sample_meta ?q =
        (''urn = ?'' #
           (if truthy (filterParam ?q) \<and> filterValue ?q \<noteq> JUndefined
               \<and> filterValue ?q \<noteq> JNull \<and> trim (toString (filterValue ?q)) \<noteq> []
            then [toString (filterParam ?q) @ '' = ?''] else []),
         JStr ''u1'' #
           (if truthy (filterParam ?q) \<and> filterValue ?q \<noteq> JUndefined
               \<and> filterValue ?q \<noteq> JNull \<and> trim (toString (filterValue ?q)) \<noteq> []
            then [filterValue ?q] else []))"
    by blast
  then have 2: "whereClauses_unified sample_meta ?q
      = ([''urn = ?'', ''level_number = ?''], [JStr ''u1'', JStr ''3''])"
    using b by (simp add: v)
  show ?thesis using h0 1 2 by blast
qed


text \<open>
  Claim C5, as stated: a property blob that fails to parse is skipped silently and
  discovery still returns the metadata of the remaining elements. It fails in both
  variants: \<open>JSON.parse\<close> runs outside any \<open>try\<close>, so what it throws leaves \<open>getMeta\<close>.
  The model below has two elements, the first with a blob that is not JSON, the second
  with a well-formed blob.
\<close>

theorem getMeta_malformed_blob_counterexample:
  "getMeta_unified
     (sample_env [[(''props_flat'', JStr ''{not json'')], [(''props_flat'', JStr sample_blob)]] [] [] [])
     (JStr ''u1'') = Inl (SyntaxError ''Unexpected token'')
   \<and> getMeta_twoStage
     (sample_env [[(''props_flat'', JStr ''{not json'')], [(''props_flat'', JStr sample_blob)]] [] [] [])
     (JStr ''u1'') = Inl (SyntaxError ''Unexpected token'')"
  by (simp add: sample_getMeta_unified_fail [OF sample_scan_unified_bad]
      sample_getMeta_twoStage_fail [OF sample_scan_twoStage_bad])

text \<open>
  Claim C5, amended. Metadata discovery skips an element whose \<open>props_flat\<close> is null or
  empty, and only those: the scan of the blobs gives what it gives without these elements.
  When the store answers and every non-empty \<open>props_flat\<close> parses, discovery returns the
  metadata. A non-empty \<open>props_flat\<close> that fails to parse is not skipped: discovery then
  fails with an error, in both variants.
\<close>

theorem getMeta_blob_handling:
  "(db_all e ''SELECT props_flat FROM elements WHERE urn = ?'' [u] = Inr docs
      \<and> d \<in> set docs \<and> truthy (getProp d ''props_flat'')
      \<and> JSON_parse_keys e (toString (getProp d ''props_flat'')) = Inl err
    \<longrightarrow> (\<exists>err'. getMeta_unified e u = Inl err'))
 \<and> (db_all e ''SELECT props_flat FROM elements WHERE urn = ? LIMIT 50'' [u] = Inr docs
      \<and> d \<in> set docs \<and> truthy (getProp d ''props_flat'')
      \<and> JSON_parse_keys e (toString (getProp d ''props_flat'')) = Inl err
    \<longrightarrow> (\<exists>err'. getMeta_twoStage e u = Inl err'))
 \<and> (db_all e categoriesSql [u] = Inr compRows
      \<and> sampleLoop e sampleSql_unified u SAMPLE_KEYS = Inr samples
      \<and> db_all e ''SELECT props_flat FROM elements WHERE urn = ?'' [u] = Inr docs
      \<and> (\<forall>d\<in>set docs. truthy (getProp d ''props_flat'') \<longrightarrow>
            (\<exists>ks. JSON_parse_keys e (toString (getProp d ''props_flat'')) = Inr ks))
    \<longrightarrow> (\<exists>mt. getMeta_unified e u = Inr mt))
 \<and> (db_all e categoriesSql [u] = Inr compRows
      \<and> sampleLoop e sampleSql_twoStage u SAMPLE_KEYS = Inr samples
      \<and> db_all e ''SELECT props_flat FROM elements WHERE urn = ? LIMIT 50'' [u] = Inr docs
      \<and> (\<forall>d\<in>set docs. truthy (getProp d ''props_flat'') \<longrightarrow>
            (\<exists>ks. JSON_parse_keys e (toString (getProp d ''props_flat'')) = Inr ks))
    \<longrightarrow> (\<exists>mt. getMeta_twoStage e u = Inr mt))
 \<and> scanDocs_unified e docs sets
      = scanDocs_unified e (filter (\<lambda>d. truthy (getProp d ''props_flat'')) docs) sets
 \<and> scanDocs_twoStage e docs keySet
      = scanDocs_twoStage e (filter (\<lambda>d. truthy (getProp d ''props_flat'')) docs) keySet"
proof (intro conjI impI)
  assume a: "db_all e ''SELECT props_flat FROM elements WHERE urn = ?'' [u] = Inr docs
      \<and> d \<in> set docs \<and> truthy (getProp d ''props_flat'')
      \<and> JSON_parse_keys e (toString (getProp d ''props_flat'')) = Inl err"
  then obtain err' where "scanDocs_unified e docs ([], []) = Inl err'"
    using scanDocs_unified_fail by blast
  with a show "\<exists>err'. getMeta_unified e u = Inl err'"
    by (simp add: getMeta_unified_def split: sum.splits)
next
  assume a: "db_all e ''SELECT props_flat FROM elements WHERE urn = ? LIMIT 50'' [u] = Inr docs
      \<and> d \<in> set docs \<and> truthy (getProp d ''props_flat'')
      \<and> JSON_parse_keys e (toString (getProp d ''props_flat'')) = Inl err"
  then obtain err' where "scanDocs_twoStage e docs [] = Inl err'"
    using scanDocs_twoStage_fail by blast
  with a show "\<exists>err'. getMeta_twoStage e u = Inl err'"
    by (simp add: getMeta_twoStage_def split: sum.splits)
next
  assume a: "db_all e categoriesSql [u] = Inr compRows
      \<and> sampleLoop e sampleSql_unified u SAMPLE_KEYS = Inr samples
      \<and> db_all e ''SELECT props_flat FROM elements WHERE urn = ?'' [u] = Inr docs
      \<and> (\<forall>d\<in>set docs. truthy (getProp d ''props_flat'') \<longrightarrow>
            (\<exists>ks. JSON_parse_keys e (toString (getProp d ''props_flat'')) = Inr ks))"
  then obtain r where "scanDocs_unified e docs ([], []) = Inr r"
    using scanDocs_unified_ok by blast
  with a show "\<exists>mt. getMeta_unified e u = Inr mt"
    by (simp add: getMeta_unified_def split: sum.splits prod.splits)
next
  assume a: "db_all e categoriesSql [u] = Inr compRows
      \<and> sampleLoop e sampleSql_twoStage u SAMPLE_KEYS = Inr samples
      \<and> db_all e ''SELECT props_flat FROM elements WHERE urn = ? LIMIT 50'' [u] = Inr docs
      \<and> (\<forall>d\<in>set docs. truthy (getProp d ''props_flat'') \<longrightarrow>
            (\<exists>ks. JSON_parse_keys e (toString (getProp d ''props_flat'')) = Inr ks))"
  then obtain r where "scanDocs_twoStage e docs [] = Inr r"
    using scanDocs_twoStage_ok by blast
  with a show "\<exists>mt. getMeta_twoStage e u = Inr mt"
    by (simp add: getMeta_twoStage_def split: sum.splits)
next
  show "scanDocs_unified e docs sets
      = scanDocs_unified e (filter (\<lambda>d. truthy (getProp d ''props_flat'')) docs) sets"
    by (rule scanDocs_unified_skip)
next
  show "scanDocs_twoStage e docs keySet
      = scanDocs_twoStage e (filter (\<lambda>d. truthy (getProp d ''props_flat'')) docs) keySet"
    by (rule scanDocs_twoStage_skip)
qed

text \<open>
  Two models of two elements: in the first, one blob is null and the other well formed; in
  the second, one blob is not JSON.
\<close>

theorem getMeta_blob_handling_witness:
  "db_all (sample_env [[(''props_flat'', JStr ''{not json'')], [(''props_flat'', JStr sample_blob)]]
        [] [] [])
      ''SELECT props_flat FROM elements WHERE urn = ?'' [JStr ''u1'']
     = Inr [[(''props_flat'', JStr ''{not json'')], [(''props_flat'', JStr sample_blob)]]
   \<and> truthy (getProp [(''props_flat'', JStr ''{not json'')] ''props_flat'')
   \<and> JSON_parse_keys (sample_env [[(''props_flat'', JStr ''{not json'')],
          [(''props_flat'', JStr sample_blob)]] [] [] [])
        (toString (getProp [(''props_flat'', JStr ''{not json'')] ''props_flat''))
     = Inl (SyntaxError ''Unexpected token'')
   \<and> (\<exists>err'. getMeta_unified (sample_env [[(''props_flat'', JStr ''{not json'')],
          [(''props_flat'', JStr sample_blob)]] [] [] []) (JStr ''u1'') = Inl err')
   \<and> (\<exists>err'. getMeta_twoStage (sample_env [[(''props_flat'', JStr ''{not json'')],
          [(''props_flat'', JStr sample_blob)]] [] [] []) (JStr ''u1'') = Inl err')
   \<and> JSON_parse_keys (sample_env [[(''props_flat'', JNull)],
          [(''props_flat'', JStr sample_blob)]] [] [] [])
        (toString (getProp [(''props_flat'', JStr sample_blob)] ''props_flat''))
     = Inr [''Floor Area'']
   \<and> \<not> truthy (getProp [(''props_flat'', JNull)] ''props_flat'')
   \<and> (\<exists>mt. getMeta_unified (sample_env [[(''props_flat'', JNull)],
          [(''props_flat'', JStr sample_blob)]] [] [] []) (JStr ''u1'') = Inr mt)
   \<and> (\<exists>mt. getMeta_twoStage (sample_env [[(''props_flat'', JNull)],
          [(''props_flat'', JStr sample_blob)]] [] [] []) (JStr ''u1'') = Inr mt)"
proof -
  let ?bad = "[[(''props_flat'', JStr ''{not json'')], [(''props_flat'', JStr sample_blob)]]"
  let ?good = "[[(''props_flat'', JNull)], [(''props_flat'', JStr sample_blob)]]"
  let ?eb = "sample_env ?bad [] [] []"
  let ?eg = "sample_env ?good [] [] []"
  let ?d = "[(''props_flat'', JStr ''{not json'')]"
  have p: "getProp ?d ''props_flat'' = JStr ''{not json''"
    "getProp [(''props_flat'', JStr sample_blob)] ''props_flat'' = JStr sample_blob"
    "getProp [(''props_flat'', JNull)] ''props_flat'' = JNull"
    by (simp_all add: getProp_def)
  have b1: "db_all ?eb ''SELECT props_flat FROM elements WHERE urn = ?'' [JStr ''u1''] = Inr ?bad"
    by (rule sample_db_docs_unified)
  have b2: "db_all ?eb ''SELECT props_flat FROM elements WHERE urn = ? LIMIT 50'' [JStr ''u1'']
      = Inr ?bad"
    by (rule sample_db_docs_twoStage)
  have b3: "?d \<in> set ?bad" by simp
  have b4: "truthy (getProp ?d ''props_flat'')" by (simp add: p)
  have b5: "JSON_parse_keys ?eb (toString (getProp ?d ''props_flat''))
      = Inl (SyntaxError ''Unexpected token'')"
    by (simp add: p sample_parse_other [OF bad_blob_not_sample])
  have g1: "db_all ?eg categoriesSql [JStr ''u1''] = Inr [[(''component_type'', JStr ''Doors'')]]"
    by (rule sample_db_categories)
  have g2: "sampleLoop ?eg sampleSql_unified (JStr ''u1'') SAMPLE_KEYS
      = Inr (map (\<lambda>k. (k, [])) SAMPLE_KEYS)"
    by (rule sampleLoop_empty [OF sample_db_samples_unified])
  have g3: "sampleLoop ?eg sampleSql_twoStage (JStr ''u1'') SAMPLE_KEYS
      = Inr (map (\<lambda>k. (k, [])) SAMPLE_KEYS)"
    by (rule sampleLoop_empty [OF sample_db_samples_twoStage])
  have g4: "db_all ?eg ''SELECT props_flat FROM elements WHERE urn = ?'' [JStr ''u1''] = Inr ?good"
    by (rule sample_db_docs_unified)
  have g5: "db_all ?eg ''SELECT props_flat FROM elements WHERE urn = ? LIMIT 50'' [JStr ''u1'']
      = Inr ?good"
    by (rule sample_db_docs_twoStage)
  have g6: "JSON_parse_keys ?eg (toString (getProp [(''props_flat'', JStr sample_blob)]
      ''props_flat'')) = Inr [''Floor Area'']"
    by (simp add: p sample_parse_blob)
  have g7: "\<forall>d\<in>set ?good. truthy (getProp d ''props_flat'') \<longrightarrow>
      (\<exists>ks. JSON_parse_keys ?eg (toString (getProp d ''props_flat'')) = Inr ks)"
    using g6 by (simp add: p)
  note tb = getMeta_blob_handling [where e = ?eb and u = "JStr ''u1''" and docs = ?bad
      and d = ?d and err = "SyntaxError ''Unexpected token''"]
  note tg = getMeta_blob_handling [where e = ?eg and u = "JStr ''u1''" and docs = ?good
      and compRows = "[[(''component_type'', JStr ''Doors'')]]"
      and samples = "map (\<lambda>k. (k, [])) SAMPLE_KEYS"]
  from tb b1 b3 b4 b5 have r1: "\<exists>err'. getMeta_unified ?eb (JStr ''u1'') = Inl err'"
    by blast
  from tb b2 b3 b4 b5 have r2: "\<exists>err'. getMeta_twoStage ?eb (JStr ''u1'') = Inl err'"
    by blast
  from tg g1 g2 g4 g7 have r3: "\<exists>mt. getMeta_unified ?eg (JStr ''u1'') = Inr mt"
    by blast
  from tg g1 g3 g5 g7 have r4: "\<exists>mt. getMeta_twoStage ?eg (JStr ''u1'') = Inr mt"
    by blast
  have n: "\<not> truthy (getProp [(''props_flat'', JNull)] ''props_flat'')"
    by (simp add: p)
  show ?thesis
    using b1 b4 b5 r1 r2 g6 n r3 r4 by blast
qed


text \<open>
  Claim C6. A plan with the task \<open>distinct\<close> or \<open>group_count\<close> whose validated
  \<open>targetParam\<close> is \<open>null\<close> fails with the error \<open><task> requires targetParam\<close>, in both
  variants, and the route handler passes that error on (\<open>next(err)\<close>): the request fails.
  With a validated non-null \<open>targetParam\<close> (a member of the allow-list) and a store that
  returns no row for the query, the result is the empty result of the task, not an error.
\<close>

theorem missing_targetParam_fails:
  "((task p = JStr ''distinct'' \<or> task p = JStr ''group_count'') \<and> targetParam p = JNull \<longrightarrow>
      runQuery_twoStage e m p q = Inl (Error (toString (task p) @ '' requires targetParam'')))
 \<and> ((task r = JStr ''distinct'' \<or> task r = JStr ''group_count'') \<and> targetParam r = JNull \<longrightarrow>
      runQuery_unified e m r q = Inl (Error (toString (task r) @ '' requires targetParam'')))
 \<and> (truthy (getProp body ''urn'') \<and> truthy (getProp body ''question'')
     \<and> getMeta_unified e (getProp body ''urn'') = Inr mu
     \<and> geminiJson e (AnalysisPrompt (getProp body ''question'') mu) = Inr a
     \<and> getProp a ''intent'' \<noteq> JStr ''general''
     \<and> (getProp a ''task'' = JStr ''distinct'' \<or> getProp a ''task'' = JStr ''group_count'')
     \<and> \<not> ALLOWED_PARAMS_has (getProp a ''targetParam'')
    \<longrightarrow> post_unified e body
          = NextError (Error (toString (getProp a ''task'') @ '' requires targetParam'')))
 \<and> (truthy (getProp body ''urn'') \<and> truthy (getProp body ''question'')
     \<and> getMeta_twoStage e (getProp body ''urn'') = Inr mt
     \<and> geminiJson e (IntentPrompt (getProp body ''question'') (categories mt)
           (detectHintCategory e (getProp body ''question'') (categories mt))) = Inr planI
     \<and> getProp planI ''intent'' \<noteq> JStr ''general''
     \<and> geminiJson e (ParameterPrompt (getProp body ''question'') planI
           (routeCategory planI (detectHintCategory e (getProp body ''question'') (categories mt))
              (categories mt))
           (paramSamples mt) (areaKeys mt)) = Inr planP
     \<and> (getProp planI ''task'' = JStr ''distinct'' \<or> getProp planI ''task'' = JStr ''group_count'')
     \<and> \<not> ALLOWED_PARAMS_has (getProp planP ''targetParam'')
    \<longrightarrow> post_twoStage e body
          = NextError (Error (toString (getProp planI ''task'') @ '' requires targetParam'')))
 \<and> (task p = JStr ''distinct'' \<and> ALLOWED_PARAMS_has (targetParam p)
      \<and> db_all e (''SELECT DISTINCT '' @ toString (targetParam p) @ '' FROM elements WHERE ''
                    @ whereClause_twoStage m p (semanticCandidates e p)
                    @ '' AND '' @ toString (targetParam p) @ '' IS NOT NULL LIMIT ?'')
                  (snd (whereClauses_twoStage m p (semanticCandidates e p))
                     @ [if isFinite (limit p) then limit p else DEFAULT_LIMIT]) = Inr []
    \<longrightarrow> runQuery_twoStage e m p q = Inr (DistinctResult (targetParam p) []))
 \<and> (task p = JStr ''group_count'' \<and> ALLOWED_PARAMS_has (targetParam p)
      \<and> db_all e (groupCountSql (toString (targetParam p))
                     (whereClause_twoStage m p (semanticCandidates e p))
                    @ nl @ indent13 @ ''LIMIT ?'')
                  (snd (whereClauses_twoStage m p (semanticCandidates e p))
                     @ [if isFinite (limit p) then limit p else DEFAULT_LIMIT]) = Inr []
    \<longrightarrow> runQuery_twoStage e m p q = Inr (GroupCountResult (targetParam p) []))
 \<and> (task r = JStr ''distinct'' \<and> ALLOWED_PARAMS_has (targetParam r)
      \<and> db_all e (''SELECT DISTINCT '' @ toString (targetParam r) @ '' FROM elements WHERE ''
                    @ whereClause_unified m r
                    @ '' AND '' @ toString (targetParam r) @ '' IS NOT NULL'')
                  (snd (whereClauses_unified m r)) = Inr []
    \<longrightarrow> runQuery_unified e m r q = Inr (DistinctResult (targetParam r) []))
 \<and> (task r = JStr ''group_count'' \<and> ALLOWED_PARAMS_has (targetParam r)
      \<and> db_all e (groupCountSql (toString (targetParam r)) (whereClause_unified m r))
                  (snd (whereClauses_unified m r)) = Inr []
    \<longrightarrow> runQuery_unified e m r q = Inr (GroupCountResult (targetParam r) []))"
proof (intro conjI impI)
  assume "(task p = JStr ''distinct'' \<or> task p = JStr ''group_count'') \<and> targetParam p = JNull"
  then show "runQuery_twoStage e m p q = Inl (Error (toString (task p) @ '' requires targetParam''))"
    by (auto simp: runQuery_twoStage_distinct runQuery_twoStage_group handler_null)
next
  assume "(task r = JStr ''distinct'' \<or> task r = JStr ''group_count'') \<and> targetParam r = JNull"
  then show "runQuery_unified e m r q = Inl (Error (toString (task r) @ '' requires targetParam''))"
    by (auto simp: runQuery_unified_distinct runQuery_unified_group handler_null)
next
  assume a: "truthy (getProp body ''urn'') \<and> truthy (getProp body ''question'')
     \<and> getMeta_unified e (getProp body ''urn'') = Inr mu
     \<and> geminiJson e (AnalysisPrompt (getProp body ''question'') mu) = Inr a
     \<and> getProp a ''intent'' \<noteq> JStr ''general''
     \<and> (getProp a ''task'' = JStr ''distinct'' \<or> getProp a ''task'' = JStr ''group_count'')
     \<and> \<not> ALLOWED_PARAMS_has (getProp a ''targetParam'')"
  let ?p = "validateAndBuildPlan a (getProp body ''urn'') (categories mu)"
  have t: "task ?p = getProp a ''task''"
    using a by (auto simp: validateAndBuildPlan_task js_or_def)
  have n: "targetParam ?p = JNull"
    using a by (simp add: validateAndBuildPlan_target_null)
  have "runQuery_unified e mu ?p (getProp body ''question'')
          = Inl (Error (toString (getProp a ''task'') @ '' requires targetParam''))"
    using a t n by (auto simp: runQuery_unified_distinct runQuery_unified_group handler_null)
  with a show "post_unified e body
          = NextError (Error (toString (getProp a ''task'') @ '' requires targetParam''))"
    using post_unified_runQuery_error by blast
next
  assume a: "truthy (getProp body ''urn'') \<and> truthy (getProp body ''question'')
     \<and> getMeta_twoStage e (getProp body ''urn'') = Inr mt
     \<and> geminiJson e (IntentPrompt (getProp body ''question'') (categories mt)
           (detectHintCategory e (getProp body ''question'') (categories mt))) = Inr planI
     \<and> getProp planI ''intent'' \<noteq> JStr ''general''
     \<and> geminiJson e (ParameterPrompt (getProp body ''question'') planI
           (routeCategory planI (detectHintCategory e (getProp body ''question'') (categories mt))
              (categories mt))
           (paramSamples mt) (areaKeys mt)) = Inr planP
     \<and> (getProp planI ''task'' = JStr ''distinct'' \<or> getProp planI ''task'' = JStr ''group_count'')
     \<and> \<not> ALLOWED_PARAMS_has (getProp planP ''targetParam'')"
  let ?c = "routeCategory planI (detectHintCategory e (getProp body ''question'') (categories mt))
              (categories mt)"
  let ?p = "validatePlanParams (buildQueryPlan planI planP (getProp body ''urn'') ?c)"
  have t: "task ?p = getProp planI ''task''"
    using a by (auto simp: validated_twoStage_task js_or_def)
  have n: "targetParam ?p = JNull"
    using a by (simp add: validated_twoStage_target_null)
  have "runQuery_twoStage e mt ?p (getProp body ''question'')
          = Inl (Error (toString (getProp planI ''task'') @ '' requires targetParam''))"
    using a t n by (auto simp: runQuery_twoStage_distinct runQuery_twoStage_group handler_null)
  with a show "post_twoStage e body
          = NextError (Error (toString (getProp planI ''task'') @ '' requires targetParam''))"
    using post_twoStage_runQuery_error by blast
next
  assume a: "task p = JStr ''distinct'' \<and> ALLOWED_PARAMS_has (targetParam p)
      \<and> db_all e (''SELECT DISTINCT '' @ toString (targetParam p) @ '' FROM elements WHERE ''
                    @ whereClause_twoStage m p (semanticCandidates e p)
                    @ '' AND '' @ toString (targetParam p) @ '' IS NOT NULL LIMIT ?'')
                  (snd (whereClauses_twoStage m p (semanticCandidates e p))
                     @ [if isFinite (limit p) then limit p else DEFAULT_LIMIT]) = Inr []"
  then have "truthy (targetParam p)" using ALLOWED_PARAMS_truthy by blast
  with a show "runQuery_twoStage e m p q = Inr (DistinctResult (targetParam p) [])"
    by (simp add: runQuery_twoStage_distinct handleDistinctTask_twoStage_def distinctValues_def)
next
  assume a: "task p = JStr ''group_count'' \<and> ALLOWED_PARAMS_has (targetParam p)
      \<and> db_all e (groupCountSql (toString (targetParam p))
                     (whereClause_twoStage m p (semanticCandidates e p))
                    @ nl @ indent13 @ ''LIMIT ?'')
                  (snd (whereClauses_twoStage m p (semanticCandidates e p))
                     @ [if isFinite (limit p) then limit p else DEFAULT_LIMIT]) = Inr []"
  then have "truthy (targetParam p)" using ALLOWED_PARAMS_truthy by blast
  with a show "runQuery_twoStage e m p q = Inr (GroupCountResult (targetParam p) [])"
    by (simp add: runQuery_twoStage_group handleGroupCountTask_twoStage_def)
next
  assume a: "task r = JStr ''distinct'' \<and> ALLOWED_PARAMS_has (targetParam r)
      \<and> db_all e (''SELECT DISTINCT '' @ toString (targetParam r) @ '' FROM elements WHERE ''
                    @ whereClause_unified m r
                    @ '' AND '' @ toString (targetParam r) @ '' IS NOT NULL'')
                  (snd (whereClauses_unified m r)) = Inr []"
  then have "truthy (targetParam r)" using ALLOWED_PARAMS_truthy by blast
  with a show "runQuery_unified e m r q = Inr (DistinctResult (targetParam r) [])"
    by (simp add: runQuery_unified_distinct handleDistinctTask_unified_def distinctValues_def)
next
  assume a: "task r = JStr ''group_count'' \<and> ALLOWED_PARAMS_has (targetParam r)
      \<and> db_all e (groupCountSql (toString (targetParam r)) (whereClause_unified m r))
                  (snd (whereClauses_unified m r)) = Inr []"
  then have "truthy (targetParam r)" using ALLOWED_PARAMS_truthy by blast
  with a show "runQuery_unified e m r q = Inr (GroupCountResult (targetParam r) [])"
    by (simp add: runQuery_unified_group handleGroupCountTask_unified_def)
qed


text \<open>
  The reasoning service asks for the distinct values (and for a count by group) of the
  column \<open>guid\<close>, which the validators reject; then for the columns \<open>type_name\<close> and
  \<open>level_number\<close> on a store that holds no element.
\<close>

theorem missing_targetParam_fails_witness:
  "task (validatePlanParams (buildQueryPlan [(''task'', JStr ''distinct'')]
        [(''targetParam'', JStr ''guid'')] (JStr ''u1'') JNull)) = JStr ''distinct''
   \<and> targetParam (validatePlanParams (buildQueryPlan [(''task'', JStr ''distinct'')]
        [(''targetParam'', JStr ''guid'')] (JStr ''u1'') JNull)) = JNull
   \<and> runQuery_twoStage (sample_env [] [] [] []) sample_meta
        (validatePlanParams (buildQueryPlan [(''task'', JStr ''distinct'')]
           [(''targetParam'', JStr ''guid'')] (JStr ''u1'') JNull))
        (JStr ''which types'')
      = Inl (Error ''distinct requires targetParam'')
   \<and> task (validateAndBuildPlan [(''task'', JStr ''group_count''), (''targetParam'', JStr ''guid'')]
        (JStr ''u1'') [''Doors'']) = JStr ''group_count''
   \<and> targetParam (validateAndBuildPlan
        [(''task'', JStr ''group_count''), (''targetParam'', JStr ''guid'')]
        (JStr ''u1'') [''Doors'']) = JNull
   \<and> runQuery_unified (sample_env [] [] [] []) sample_meta
        (validateAndBuildPlan [(''task'', JStr ''group_count''), (''targetParam'', JStr ''guid'')]
           (JStr ''u1'') [''Doors''])
        (JStr ''which types'')
      = Inl (Error ''group_count requires targetParam'')
   \<and> post_unified
        (sample_env [[(''props_flat'', JNull)], [(''props_flat'', JStr sample_blob)]] []
           [(''task'', JStr ''distinct''), (''targetParam'', JStr ''guid'')] [])
        [(''urn'', JStr ''u1''), (''question'', JStr ''which types'')]
      = NextError (Error ''distinct requires targetParam'')
   \<and> post_twoStage
        (sample_env [[(''props_flat'', JNull)], [(''props_flat'', JStr sample_blob)]] []
           [(''task'', JStr ''group_count'')] [(''targetParam'', JStr ''guid'')])
        [(''urn'', JStr ''u1''), (''question'', JStr ''which types'')]
      = NextError (Error ''group_count requires targetParam'')
   \<and> ALLOWED_PARAMS_has (targetParam (validatePlanParams (buildQueryPlan
        [(''task'', JStr ''distinct'')] [(''targetParam'', JStr ''type_name'')] (JStr ''u1'') JNull)))
   \<and> runQuery_twoStage (sample_env [] [] [] []) sample_meta
        (validatePlanParams (buildQueryPlan [(''task'', JStr ''distinct'')]
           [(''targetParam'', JStr ''type_name'')] (JStr ''u1'') JNull))
        (JStr ''which types'')
      = Inr (DistinctResult (JStr ''type_name'') [])
   \<and> runQuery_twoStage (sample_env [] [] [] []) sample_meta
        (validatePlanParams (buildQueryPlan [(''task'', JStr ''group_count'')]
           [(''targetParam'', JStr ''level_number'')] (JStr ''u1'') JNull))
        (JStr ''how many per level'')
      = Inr (GroupCountResult (JStr ''level_number'') [])
   \<and> runQuery_unified (sample_env [] [] [] []) sample_meta
        (validateAndBuildPlan [(''task'', JStr ''distinct''), (''targetParam'', JStr ''type_name'')]
           (JStr ''u1'') [''Doors''])
        (JStr ''which types'')
      = Inr (DistinctResult (JStr ''type_name'') [])
   \<and> runQuery_unified (sample_env [] [] [] []) sample_meta
        (validateAndBuildPlan
           [(''task'', JStr ''group_count''), (''targetParam'', JStr ''level_number'')]
           (JStr ''u1'') [''Doors''])
        (JStr ''how many per level'')
      = Inr (GroupCountResult (JStr ''level_number'') [])"
proof -
  let ?e = "sample_env [] [] [] [] :: unit env"
  let ?u = "JStr ''u1''"
  let ?q = "JStr ''which types''"
  let ?q' = "JStr ''how many per level''"
  let ?pn = "validatePlanParams (buildQueryPlan [(''task'', JStr ''distinct'')]
        [(''targetParam'', JStr ''guid'')] ?u JNull)"
  let ?rn = "validateAndBuildPlan [(''task'', JStr ''group_count''), (''targetParam'', JStr ''guid'')]
        ?u [''Doors'']"
  have pn: "task ?pn = JStr ''distinct''" "targetParam ?pn = JNull"
    by (simp_all add: plan_eval)
  have rn: "task ?rn = JStr ''group_count''" "targetParam ?rn = JNull"
    by (simp_all add: plan_eval)
  note tn = missing_targetParam_fails [where p = ?pn and r = ?rn and e = ?e and m = sample_meta
      and q = ?q]
  from tn pn have 1: "runQuery_twoStage ?e sample_meta ?pn ?q
      = Inl (Error (toString (task ?pn) @ '' requires targetParam''))"
    by blast
  from tn rn have 2: "runQuery_unified ?e sample_meta ?rn ?q
      = Inl (Error (toString (task ?rn) @ '' requires targetParam''))"
    by blast
  \<comment> \<open>the route handlers\<close>
  let ?docs = "[[(''props_flat'', JNull)], [(''props_flat'', JStr sample_blob)]]"
  let ?body = "[(''urn'', ?u), (''question'', ?q)]"
  let ?a = "[(''task'', JStr ''distinct''), (''targetParam'', JStr ''guid'')]"
  let ?eu = "sample_env ?docs [] ?a [] :: unit env"
  let ?mu = "\<lparr> categoryField = ''component_type'', categories = [''Doors''],
      paramSamples = map (\<lambda>k. (k, [])) SAMPLE_KEYS, areaKeys = [''Floor Area''],
      volumeKeys = [] \<rparr>"
  have b: "getProp ?body ''urn'' = ?u" "getProp ?body ''question'' = ?q"
    by (simp_all add: getProp_def)
  have u1: "truthy (getProp ?body ''urn'')" "truthy (getProp ?body ''question'')"
    by (simp_all add: b)
  have u2: "getMeta_unified ?eu (getProp ?body ''urn'') = Inr ?mu"
    by (simp only: b sample_getMeta_unified [OF sample_scan_unified_good])
  have u3: "geminiJson ?eu (AnalysisPrompt (getProp ?body ''question'') ?mu) = Inr ?a"
    by (simp add: sample_env_def)
  have u4: "getProp ?a ''intent'' \<noteq> JStr ''general''"
    "getProp ?a ''task'' = JStr ''distinct''"
    "\<not> ALLOWED_PARAMS_has (getProp ?a ''targetParam'')"
    by (simp_all add: getProp_def ALLOWED_PARAMS_has_def ALLOWED_PARAMS_def)
  note tu = missing_targetParam_fails [where e = ?eu and body = ?body and mu = ?mu and a = ?a]
  from tu u1 u2 u3 u4 have 3: "post_unified ?eu ?body
      = NextError (Error (toString (getProp ?a ''task'') @ '' requires targetParam''))"
    by blast
  let ?pi = "[(''task'', JStr ''group_count'')]"
  let ?pp = "[(''targetParam'', JStr ''guid'')]"
  let ?et = "sample_env ?docs [] ?pi ?pp :: unit env"
  let ?mt = "sample_meta\<lparr>areaKeys := take 200 [''Floor Area'']\<rparr>"
  have v2: "getMeta_twoStage ?et (getProp ?body ''urn'') = Inr ?mt"
    by (simp only: b sample_getMeta_twoStage [OF sample_scan_twoStage_good])
  have v3: "geminiJson ?et (IntentPrompt (getProp ?body ''question'') (categories ?mt)
      (detectHintCategory ?et (getProp ?body ''question'') (categories ?mt))) = Inr ?pi"
    by (simp add: sample_env_def)
  have v4: "geminiJson ?et (ParameterPrompt (getProp ?body ''question'') ?pi
      (routeCategory ?pi (detectHintCategory ?et (getProp ?body ''question'') (categories ?mt))
         (categories ?mt))
      (paramSamples ?mt) (areaKeys ?mt)) = Inr ?pp"
    by (simp add: sample_env_def)
  have v5: "getProp ?pi ''intent'' \<noteq> JStr ''general''"
    "getProp ?pi ''task'' = JStr ''group_count''"
    "\<not> ALLOWED_PARAMS_has (getProp ?pp ''targetParam'')"
    by (simp_all add: getProp_def ALLOWED_PARAMS_has_def ALLOWED_PARAMS_def)
  note tt = missing_targetParam_fails [where e = ?et and body = ?body and mt = ?mt
      and planI = ?pi and planP = ?pp]
  from tt u1 v2 v3 v4 v5 have 4: "post_twoStage ?et ?body
      = NextError (Error (toString (getProp ?pi ''task'') @ '' requires targetParam''))"
    by blast
  \<comment> \<open>the empty results\<close>
  let ?pd = "validatePlanParams (buildQueryPlan [(''task'', JStr ''distinct'')]
        [(''targetParam'', JStr ''type_name'')] ?u JNull)"
  let ?pg = "validatePlanParams (buildQueryPlan [(''task'', JStr ''group_count'')]
        [(''targetParam'', JStr ''level_number'')] ?u JNull)"
  let ?rd = "validateAndBuildPlan [(''task'', JStr ''distinct''), (''targetParam'', JStr ''type_name'')]
        ?u [''Doors'']"
  let ?rg = "validateAndBuildPlan
        [(''task'', JStr ''group_count''), (''targetParam'', JStr ''level_number'')] ?u [''Doors'']"
  have pd: "task ?pd = JStr ''distinct''" "targetParam ?pd = JStr ''type_name''"
    and pg: "task ?pg = JStr ''group_count''" "targetParam ?pg = JStr ''level_number''"
    and rd: "task ?rd = JStr ''distinct''" "targetParam ?rd = JStr ''type_name''"
    and rg: "task ?rg = JStr ''group_count''" "targetParam ?rg = JStr ''level_number''"
    by (simp_all add: plan_eval)
  have al: "ALLOWED_PARAMS_has (JStr ''type_name'')" "ALLOWED_PARAMS_has (JStr ''level_number'')"
    by (simp_all add: ALLOWED_PARAMS_has_def ALLOWED_PARAMS_def)
  have s1: "\<And>w x ps. db_all ?e (''SELECT DISTINCT '' @ toString (JStr ''type_name'') @ w) ps = Inr []"
    by (simp add: sample_env_def categoriesSql_def sampleSql_unified_def sampleSql_twoStage_def
        SAMPLE_KEYS_def)
  have s2: "\<And>w x ps. db_all ?e (groupCountSql (toString (JStr ''level_number'')) w @ x) ps = Inr []"
    by (simp add: sample_env_def categoriesSql_def sampleSql_unified_def sampleSql_twoStage_def
        SAMPLE_KEYS_def groupCountSql_def)
  have s3: "\<And>w ps. db_all ?e (groupCountSql (toString (JStr ''level_number'')) w) ps = Inr []"
    using s2 [of _ "[]"] by simp
  note td = missing_targetParam_fails [where p = ?pd and r = ?rd and e = ?e and m = sample_meta
      and q = ?q]
  note tg = missing_targetParam_fails [where p = ?pg and r = ?rg and e = ?e and m = sample_meta
      and q = ?q']
  have 5: "runQuery_twoStage ?e sample_meta ?pd ?q = Inr (DistinctResult (targetParam ?pd) [])"
    using td pd al s1 by simp
  have 6: "runQuery_twoStage ?e sample_meta ?pg ?q' = Inr (GroupCountResult (targetParam ?pg) [])"
    using tg pg al s2 by simp
  have 7: "runQuery_unified ?e sample_meta ?rd ?q = Inr (DistinctResult (targetParam ?rd) [])"
    using td rd al s1 by simp
  have 8: "runQuery_unified ?e sample_meta ?rg ?q' = Inr (GroupCountResult (targetParam ?rg) [])"
    using tg rg al s3 by simp
  have 9: "ALLOWED_PARAMS_has (targetParam ?pd)"
    by (simp add: pd al)
  show ?thesis
    using pn rn 1 2 3 4 5 6 7 8 9
    by (simp add: u4 v5 pd pg rd rg)
qed


text \<open>
  Claim C7, as stated: when embedding generation throws, returns an empty embedding, or the
  similarity search throws, the candidate id restriction is left unset and the compiled
  filter is that of the unrestricted query. It fails for an empty embedding that is an
  empty vector: \<open>runQuery\<close> tests \<open>if (queryEmbed)\<close>, an array is truthy even when empty,
  so the vector goes to the similarity search, and the candidates the search returns are
  compiled into an \<open>id IN\<close> clause that the unrestricted query does not have.
\<close>

theorem semantic_empty_vector_counterexample:
  "truthy (useSemanticSearch (validatePlanParams (buildQueryPlan [(''task'', JStr ''count'')]
      [(''useSemanticSearch'', JBool True), (''semanticQuery'', JStr ''load bearing'')]
      (JStr ''u1'') (JStr ''Doors''))))
   \<and> truthy (semanticQuery (validatePlanParams (buildQueryPlan [(''task'', JStr ''count'')]
      [(''useSemanticSearch'', JBool True), (''semanticQuery'', JStr ''load bearing'')]
      (JStr ''u1'') (JStr ''Doors''))))
   \<and> generateEmbedding sample_vector_env
        (semanticQuery (validatePlanParams (buildQueryPlan [(''task'', JStr ''count'')]
           [(''useSemanticSearch'', JBool True), (''semanticQuery'', JStr ''load bearing'')]
           (JStr ''u1'') (JStr ''Doors''))))
      = Inr (Some [])
   \<and> semanticCandidates sample_vector_env
        (validatePlanParams (buildQueryPlan [(''task'', JStr ''count'')]
           [(''useSemanticSearch'', JBool True), (''semanticQuery'', JStr ''load bearing'')]
           (JStr ''u1'') (JStr ''Doors'')))
      = Some [3, 5]
   \<and> whereClause_twoStage sample_meta
        (validatePlanParams (buildQueryPlan [(''task'', JStr ''count'')]
           [(''useSemanticSearch'', JBool True), (''semanticQuery'', JStr ''load bearing'')]
           (JStr ''u1'') (JStr ''Doors'')))
        (semanticCandidates sample_vector_env
           (validatePlanParams (buildQueryPlan [(''task'', JStr ''count'')]
              [(''useSemanticSearch'', JBool True), (''semanticQuery'', JStr ''load bearing'')]
              (JStr ''u1'') (JStr ''Doors''))))
      = ''urn = ? AND id IN (3,5) AND component_type = ?''
   \<and> whereClause_unified sample_meta
        (plan.truncate (validatePlanParams (buildQueryPlan [(''task'', JStr ''count'')]
           [(''useSemanticSearch'', JBool True), (''semanticQuery'', JStr ''load bearing'')]
           (JStr ''u1'') (JStr ''Doors''))))
      = ''urn = ? AND component_type = ?''"
  by (simp add: plan_eval semanticCandidates_def sample_vector_env_def plan.truncate_def)

text \<open>
  Claim C7, amended. For every plan that requests semantic search (\<open>useSemanticSearch\<close> and
  \<open>semanticQuery\<close> truthy), if the embedding call throws, or returns no embedding
  (\<open>null\<close>), or the similarity search throws, then the candidate ids stay \<open>null\<close>; no
  \<open>id IN\<close> clause is added: the clauses and bound parameters are those the compiler without
  semantic search builds from the same plan; and \<open>runQuery\<close> returns what it returns for the
  same plan with semantic search switched off, so the failure fails nothing. A vector,
  empty or not, is no such failure: it is passed to the similarity search and the
  candidate ids are what the search returns; the filter is the unrestricted one when the
  search returns no candidate, and has the \<open>id IN\<close> clause of the candidates, right after
  the model scope, otherwise.
\<close>

theorem semantic_failure_unrestricted:
  assumes "truthy (useSemanticSearch p)" and "truthy (semanticQuery p)"
  shows "(((\<exists>err. generateEmbedding e (semanticQuery p) = Inl err)
           \<or> generateEmbedding e (semanticQuery p) = Inr None
           \<or> (\<exists>v err. generateEmbedding e (semanticQuery p) = Inr (Some v)
                \<and> semanticSearch e (urn p) v (js_or (topK p) DEFAULT_TOP_K) = Inl err))
        \<longrightarrow> semanticCandidates e p = None
          \<and> whereClauses_twoStage m p (semanticCandidates e p)
              = whereClauses_unified m (plan.truncate p)
          \<and> runQuery_twoStage e m p q
              = runQuery_twoStage e m (p\<lparr>useSemanticSearch := JBool False\<rparr>) q)
    \<and> (generateEmbedding e (semanticQuery p) = Inr (Some v)
          \<and> semanticSearch e (urn p) v (js_or (topK p) DEFAULT_TOP_K) = Inr ids
        \<longrightarrow> semanticCandidates e p = Some ids
          \<and> (ids = [] \<longrightarrow>
                whereClauses_twoStage m p (semanticCandidates e p)
                  = whereClauses_unified m (plan.truncate p)
              \<and> runQuery_twoStage e m p q
                  = runQuery_twoStage e m (p\<lparr>useSemanticSearch := JBool False\<rparr>) q)
          \<and> (ids \<noteq> [] \<longrightarrow>
                whereClauses_twoStage m p (semanticCandidates e p)
                  = (''urn = ?'' # (''id IN ('' @ join '','' (map show_int ids) @ '')'')
                       # tl (fst (whereClauses_unified m (plan.truncate p))),
                     snd (whereClauses_unified m (plan.truncate p)))))"
proof (intro conjI impI)
  assume f: "(\<exists>err. generateEmbedding e (semanticQuery p) = Inl err)
           \<or> generateEmbedding e (semanticQuery p) = Inr None
           \<or> (\<exists>v err. generateEmbedding e (semanticQuery p) = Inr (Some v)
                \<and> semanticSearch e (urn p) v (js_or (topK p) DEFAULT_TOP_K) = Inl err)"
  show n: "semanticCandidates e p = None"
    using assms f by (auto simp: semanticCandidates_def)
  show "whereClauses_twoStage m p (semanticCandidates e p)
      = whereClauses_unified m (plan.truncate p)"
    by (simp only: n whereClauses_twoStage_None)
  show "runQuery_twoStage e m p q
      = runQuery_twoStage e m (p\<lparr>useSemanticSearch := JBool False\<rparr>) q"
    by (rule runQuery_twoStage_unrestricted [OF n])
next
  assume s: "generateEmbedding e (semanticQuery p) = Inr (Some v)
          \<and> semanticSearch e (urn p) v (js_or (topK p) DEFAULT_TOP_K) = Inr ids"
  show c: "semanticCandidates e p = Some ids"
    using assms s by (simp add: semanticCandidates_def)
  {
    assume "ids = []"
    with c have z: "semanticCandidates e p = Some []" by simp
    show "whereClauses_twoStage m p (semanticCandidates e p)
        = whereClauses_unified m (plan.truncate p)"
      by (simp only: z whereClauses_twoStage_Nil whereClauses_twoStage_None)
    show "runQuery_twoStage e m p q
        = runQuery_twoStage e m (p\<lparr>useSemanticSearch := JBool False\<rparr>) q"
      by (rule runQuery_twoStage_no_candidates [OF z])
  }
  {
    assume i: "ids \<noteq> []"
    show "whereClauses_twoStage m p (semanticCandidates e p)
        = (''urn = ?'' # (''id IN ('' @ join '','' (map show_int ids) @ '')'')
             # tl (fst (whereClauses_unified m (plan.truncate p))),
           snd (whereClauses_unified m (plan.truncate p)))"
      by (simp only: c whereClauses_twoStage_ids [OF i])
  }
qed

text \<open>
  A count of doors with the semantic query \<open>fail\<close>, on which the sample embedding service
  throws; with the query \<open>empty\<close>, on which it returns \<open>null\<close>; with one candidate
  requested, on which the sample similarity search throws; and, on the service that returns
  the empty vector, with the default number of candidates (the search returns 3 and 5) and
  with one candidate (the search returns none).
\<close>

theorem semantic_failure_unrestricted_witness:
  "truthy (useSemanticSearch (validatePlanParams (buildQueryPlan [(''task'', JStr ''count'')]
      [(''useSemanticSearch'', JBool True), (''semanticQuery'', JStr ''fail'')]
      (JStr ''u1'') (JStr ''Doors''))))
   \<and> generateEmbedding (sample_env [] [] [] [])
        (semanticQuery (validatePlanParams (buildQueryPlan [(''task'', JStr ''count'')]
           [(''useSemanticSearch'', JBool True), (''semanticQuery'', JStr ''fail'')]
           (JStr ''u1'') (JStr ''Doors''))))
      = Inl (Error ''embedding service unavailable'')
   \<and> whereClauses_twoStage sample_meta
        (validatePlanParams (buildQueryPlan [(''task'', JStr ''count'')]
           [(''useSemanticSearch'', JBool True), (''semanticQuery'', JStr ''fail'')]
           (JStr ''u1'') (JStr ''Doors'')))
        (semanticCandidates (sample_env [] [] [] [])
           (validatePlanParams (buildQueryPlan [(''task'', JStr ''count'')]
              [(''useSemanticSearch'', JBool True), (''semanticQuery'', JStr ''fail'')]
              (JStr ''u1'') (JStr ''Doors''))))
      = ([''urn = ?'', ''component_type = ?''], [JStr ''u1'', JStr ''Doors''])
   \<and> generateEmbedding (sample_env [] [] [] [])
        (semanticQuery (validatePlanParams (buildQueryPlan [(''task'', JStr ''count'')]
           [(''useSemanticSearch'', JBool True), (''semanticQuery'', JStr ''empty'')]
           (JStr ''u1'') (JStr ''Doors''))))
      = Inr None
   \<and> semanticCandidates (sample_env [] [] [] [])
        (validatePlanParams (buildQueryPlan [(''task'', JStr ''count'')]
           [(''useSemanticSearch'', JBool True), (''semanticQuery'', JStr ''empty'')]
           (JStr ''u1'') (JStr ''Doors''))) = None
   \<and> semanticSearch (sample_env [] [] [] []) (JStr ''u1'') ()
        (js_or (topK (validatePlanParams (buildQueryPlan [(''task'', JStr ''count'')]
           [(''useSemanticSearch'', JBool True), (''semanticQuery'', JStr ''load bearing''),
            (''topK'', JNum 1)]
           (JStr ''u1'') (JStr ''Doors'')))) DEFAULT_TOP_K)
      = Inl (Error ''vector index unavailable'')
   \<and> runQuery_twoStage (sample_env [] [] [] []) sample_meta
        (validatePlanParams (buildQueryPlan [(''task'', JStr ''count'')]
           [(''useSemanticSearch'', JBool True), (''semanticQuery'', JStr ''load bearing''),
            (''topK'', JNum 1)]
           (JStr ''u1'') (JStr ''Doors'')))
        (JStr ''how many load bearing doors'')
      = runQuery_twoStage (sample_env [] [] [] []) sample_meta
        (validatePlanParams (buildQueryPlan [(''task'', JStr ''count'')]
           [(''useSemanticSearch'', JBool True), (''semanticQuery'', JStr ''load bearing''),
            (''topK'', JNum 1)]
           (JStr ''u1'') (JStr ''Doors'')) \<lparr>useSemanticSearch := JBool False\<rparr>)
        (JStr ''how many load bearing doors'')
   \<and> generateEmbedding sample_vector_env
        (semanticQuery (validatePlanParams (buildQueryPlan [(''task'', JStr ''count'')]
           [(''useSemanticSearch'', JBool True), (''semanticQuery'', JStr ''load bearing'')]
           (JStr ''u1'') (JStr ''Doors''))))
      = Inr (Some [])
   \<and> semanticSearch sample_vector_env (JStr ''u1'') []
        (js_or (topK (validatePlanParams (buildQueryPlan [(''task'', JStr ''count'')]
           [(''useSemanticSearch'', JBool True), (''semanticQuery'', JStr ''load bearing'')]
           (JStr ''u1'') (JStr ''Doors'')))) DEFAULT_TOP_K)
      = Inr [3, 5]
   \<and> whereClauses_twoStage sample_meta
        (validatePlanParams (buildQueryPlan [(''task'', JStr ''count'')]
           [(''useSemanticSearch'', JBool True), (''semanticQuery'', JStr ''load bearing'')]
           (JStr ''u1'') (JStr ''Doors'')))
        (semanticCandidates sample_vector_env
           (validatePlanParams (buildQueryPlan [(''task'', JStr ''count'')]
              [(''useSemanticSearch'', JBool True), (''semanticQuery'', JStr ''load bearing'')]
              (JStr ''u1'') (JStr ''Doors''))))
      = ([''urn = ?'', ''id IN (3,5)'', ''component_type = ?''], [JStr ''u1'', JStr ''Doors''])
   \<and> semanticSearch sample_vector_env (JStr ''u1'') []
        (js_or (topK (validatePlanParams (buildQueryPlan [(''task'', JStr ''count'')]
           [(''useSemanticSearch'', JBool True), (''semanticQuery'', JStr ''load bearing''),
            (''topK'', JNum 1)]
           (JStr ''u1'') (JStr ''Doors'')))) DEFAULT_TOP_K)
      = Inr []
   \<and> whereClauses_twoStage sample_meta
        (validatePlanParams (buildQueryPlan [(''task'', JStr ''count'')]
           [(''useSemanticSearch'', JBool True), (''semanticQuery'', JStr ''load bearing''),
            (''topK'', JNum 1)]
           (JStr ''u1'') (JStr ''Doors'')))
        (semanticCandidates sample_vector_env
           (validatePlanParams (buildQueryPlan [(''task'', JStr ''count'')]
              [(''useSemanticSearch'', JBool True), (''semanticQuery'', JStr ''load bearing''),
               (''topK'', JNum 1)]
              (JStr ''u1'') (JStr ''Doors''))))
      = ([''urn = ?'', ''component_type = ?''], [JStr ''u1'', JStr ''Doors''])"
proof -
  let ?e = "sample_env [] [] [] [] :: unit env"
  let ?ve = "sample_vector_env"
  let ?pf = "validatePlanParams (buildQueryPlan [(''task'', JStr ''count'')]
      [(''useSemanticSearch'', JBool True), (''semanticQuery'', JStr ''fail'')]
      (JStr ''u1'') (JStr ''Doors''))"
  let ?pe = "validatePlanParams (buildQueryPlan [(''task'', JStr ''count'')]
      [(''useSemanticSearch'', JBool True), (''semanticQuery'', JStr ''empty'')]
      (JStr ''u1'') (JStr ''Doors''))"
  let ?ps = "validatePlanParams (buildQueryPlan [(''task'', JStr ''count'')]
      [(''useSemanticSearch'', JBool True), (''semanticQuery'', JStr ''load bearing''),
       (''topK'', JNum 1)]
      (JStr ''u1'') (JStr ''Doors''))"
  let ?pv = "validatePlanParams (buildQueryPlan [(''task'', JStr ''count'')]
      [(''useSemanticSearch'', JBool True), (''semanticQuery'', JStr ''load bearing'')]
      (JStr ''u1'') (JStr ''Doors''))"
  have f: "useSemanticSearch ?pf = JBool True" "semanticQuery ?pf = JStr ''fail''"
    and em: "useSemanticSearch ?pe = JBool True" "semanticQuery ?pe = JStr ''empty''"
    and s: "useSemanticSearch ?ps = JBool True" "semanticQuery ?ps = JStr ''load bearing''"
      "topK ?ps = JNum 1" "urn ?ps = JStr ''u1''"
    and v: "useSemanticSearch ?pv = JBool True" "semanticQuery ?pv = JStr ''load bearing''"
      "topK ?pv = JNum 100" "urn ?pv = JStr ''u1''"
    by (simp_all add: plan_eval)
  have g1: "generateEmbedding ?e (JStr ''fail'') = Inl (Error ''embedding service unavailable'')"
    and g2: "generateEmbedding ?e (JStr ''empty'') = Inr None"
    and g3: "generateEmbedding ?e (JStr ''load bearing'') = Inr (Some ())"
    and g4: "semanticSearch ?e (JStr ''u1'') () (js_or (JNum 1) DEFAULT_TOP_K)
      = Inl (Error ''vector index unavailable'')"
    by (simp_all add: sample_env_def js_or_def)
  have k1: "generateEmbedding ?ve (JStr ''load bearing'') = Inr (Some [])"
    and k2: "semanticSearch ?ve (JStr ''u1'') [] (js_or (JNum 100) DEFAULT_TOP_K) = Inr [3, 5]"
    and k3: "semanticSearch ?ve (JStr ''u1'') [] (js_or (JNum 1) DEFAULT_TOP_K) = Inr []"
    by (simp_all add: sample_vector_env_def js_or_def)
  have hf: "(\<exists>err. generateEmbedding ?e (semanticQuery ?pf) = Inl err)
       \<or> generateEmbedding ?e (semanticQuery ?pf) = Inr None
       \<or> (\<exists>v err. generateEmbedding ?e (semanticQuery ?pf) = Inr (Some v)
            \<and> semanticSearch ?e (urn ?pf) v (js_or (topK ?pf) DEFAULT_TOP_K) = Inl err)"
    by (simp add: f g1)
  have he: "(\<exists>err. generateEmbedding ?e (semanticQuery ?pe) = Inl err)
       \<or> generateEmbedding ?e (semanticQuery ?pe) = Inr None
       \<or> (\<exists>v err. generateEmbedding ?e (semanticQuery ?pe) = Inr (Some v)
            \<and> semanticSearch ?e (urn ?pe) v (js_or (topK ?pe) DEFAULT_TOP_K) = Inl err)"
    by (simp add: em g2)
  have hs: "(\<exists>err. generateEmbedding ?e (semanticQuery ?ps) = Inl err)
       \<or> generateEmbedding ?e (semanticQuery ?ps) = Inr None
       \<or> (\<exists>v err. generateEmbedding ?e (semanticQuery ?ps) = Inr (Some v)
            \<and> semanticSearch ?e (urn ?ps) v (js_or (topK ?ps) DEFAULT_TOP_K) = Inl err)"
    by (simp add: s g3 g4)
  have hv: "generateEmbedding ?ve (semanticQuery ?pv) = Inr (Some [])
      \<and> semanticSearch ?ve (urn ?pv) [] (js_or (topK ?pv) DEFAULT_TOP_K) = Inr [3, 5]"
    by (simp add: v k1 k2)
  have hz: "generateEmbedding ?ve (semanticQuery ?ps) = Inr (Some [])
      \<and> semanticSearch ?ve (urn ?ps) [] (js_or (topK ?ps) DEFAULT_TOP_K) = Inr []"
    by (simp add: s k1 k3)
  have tf: "truthy (useSemanticSearch ?pf)" "truthy (semanticQuery ?pf)"
    and te: "truthy (useSemanticSearch ?pe)" "truthy (semanticQuery ?pe)"
    and ts: "truthy (useSemanticSearch ?ps)" "truthy (semanticQuery ?ps)"
    and tv: "truthy (useSemanticSearch ?pv)" "truthy (semanticQuery ?pv)"
    by (simp_all add: f em s v)
  note rf = semantic_failure_unrestricted [OF tf, where e = ?e and m = sample_meta]
  note re = semantic_failure_unrestricted [OF te, where e = ?e and m = sample_meta]
  note rs = semantic_failure_unrestricted [OF ts, where e = ?e and m = sample_meta
      and q = "JStr ''how many load bearing doors''"]
  note rv = semantic_failure_unrestricted [OF tv, where e = ?ve and m = sample_meta and v = "[]"
      and ids = "[3, 5]"]
  note rz = semantic_failure_unrestricted [OF ts, where e = ?ve and m = sample_meta and v = "[]"
      and ids = "[]"]
  have w: "whereClauses_unified sample_meta (plan.truncate ?pf)
      = ([''urn = ?'', ''component_type = ?''], [JStr ''u1'', JStr ''Doors''])"
    "whereClauses_unified sample_meta (plan.truncate ?pv)
      = ([''urn = ?'', ''component_type = ?''], [JStr ''u1'', JStr ''Doors''])"
    "whereClauses_unified sample_meta (plan.truncate ?ps)
      = ([''urn = ?'', ''component_type = ?''], [JStr ''u1'', JStr ''Doors''])"
    by (simp_all add: plan_eval plan.truncate_def)
  from rf hf have "whereClauses_twoStage sample_meta ?pf (semanticCandidates ?e ?pf)
      = whereClauses_unified sample_meta (plan.truncate ?pf)"
    by blast
  with w have 1: "whereClauses_twoStage sample_meta ?pf (semanticCandidates ?e ?pf)
      = ([''urn = ?'', ''component_type = ?''], [JStr ''u1'', JStr ''Doors''])"
    by (simp only:)
  from re he have 2: "semanticCandidates ?e ?pe = None" by blast
  from rs hs have 3: "runQuery_twoStage ?e sample_meta ?ps (JStr ''how many load bearing doors'')
      = runQuery_twoStage ?e sample_meta (?ps\<lparr>useSemanticSearch := JBool False\<rparr>)
          (JStr ''how many load bearing doors'')"
    by blast
  have 4: "generateEmbedding ?e (semanticQuery ?pf) = Inl (Error ''embedding service unavailable'')"
    "generateEmbedding ?e (semanticQuery ?pe) = Inr None"
    "semanticSearch ?e (JStr ''u1'') () (js_or (topK ?ps) DEFAULT_TOP_K)
      = Inl (Error ''vector index unavailable'')"
    by (simp_all add: f em s g1 g2 g4)
  have ne: "[3, 5] \<noteq> ([] :: int list)" by simp
  from rv hv ne have "whereClauses_twoStage sample_meta ?pv (semanticCandidates ?ve ?pv)
      = (''urn = ?'' # (''id IN ('' @ join '','' (map show_int [3, 5]) @ '')'')
           # tl (fst (whereClauses_unified sample_meta (plan.truncate ?pv))),
         snd (whereClauses_unified sample_meta (plan.truncate ?pv)))"
    by blast
  then have 5: "whereClauses_twoStage sample_meta ?pv (semanticCandidates ?ve ?pv)
      = ([''urn = ?'', ''id IN (3,5)'', ''component_type = ?''], [JStr ''u1'', JStr ''Doors''])"
    by (simp add: w show_int_def)
  from rz hz have "whereClauses_twoStage sample_meta ?ps (semanticCandidates ?ve ?ps)
      = whereClauses_unified sample_meta (plan.truncate ?ps)"
    by blast
  with w have 6: "whereClauses_twoStage sample_meta ?ps (semanticCandidates ?ve ?ps)
      = ([''urn = ?'', ''component_type = ?''], [JStr ''u1'', JStr ''Doors''])"
    by (simp only:)
  have 7: "generateEmbedding ?ve (semanticQuery ?pv) = Inr (Some [])"
    "semanticSearch ?ve (JStr ''u1'') [] (js_or (topK ?pv) DEFAULT_TOP_K) = Inr [3, 5]"
    "semanticSearch ?ve (JStr ''u1'') [] (js_or (topK ?ps) DEFAULT_TOP_K) = Inr []"
    using hv hz by (simp_all add: v s)
  show ?thesis
    using tf(1) 1 2 3 4 5 6 7 by blast
qed

text \<open>
  Claim C8. A distinct task with a valid \<open>targetParam\<close> returns only trimmed, non-null,
  non-blank strings, without duplicates. The values are trimmed and non-blank
  (\<open>distinctValues_trimmed\<close>), and they have no duplicates as long as the rows of the
  store stay distinct once trimmed (\<open>distinctValues_distinct\<close>). The code asks the store
  for \<open>SELECT DISTINCT\<close> and trims afterwards, so two stored values that differ only in
  surrounding white space come back as the same value twice: on a model whose elements
  have the type names \<open>Door\<close> and \<open>Door\<close> followed by a space, the store returns both rows
  and the handler returns \<open>Door\<close> twice, in both variants.
\<close>

theorem distinct_values_duplicates:
  "runQuery_unified
     (sample_env [] [[(''type_name'', JStr ''Door'')], [(''type_name'', JStr ''Door '')]] [] [])
     sample_meta
     (validateAndBuildPlan [(''task'', JStr ''distinct''), (''targetParam'', JStr ''type_name'')]
        (JStr ''u1'') [''Doors''])
     (JStr ''which types'')
    = Inr (DistinctResult (JStr ''type_name'') [''Door'', ''Door''])
   \<and> runQuery_twoStage
     (sample_env [] [[(''type_name'', JStr ''Door'')], [(''type_name'', JStr ''Door '')]] [] [])
     sample_meta
     (validatePlanParams (buildQueryPlan [(''task'', JStr ''distinct'')]
        [(''targetParam'', JStr ''type_name'')] (JStr ''u1'') JNull))
     (JStr ''which types'')
    = Inr (DistinctResult (JStr ''type_name'') [''Door'', ''Door''])
   \<and> \<not> distinct [''Door'', ''Door'']"
proof -
  let ?rows = "[[(''type_name'', JStr ''Door'')], [(''type_name'', JStr ''Door '')]]"
  let ?e = "sample_env [] ?rows [] [] :: unit env"
  let ?r = "validateAndBuildPlan [(''task'', JStr ''distinct''), (''targetParam'', JStr ''type_name'')]
        (JStr ''u1'') [''Doors'']"
  let ?p = "validatePlanParams (buildQueryPlan [(''task'', JStr ''distinct'')]
        [(''targetParam'', JStr ''type_name'')] (JStr ''u1'') JNull)"
  have r: "task ?r = JStr ''distinct''" "targetParam ?r = JStr ''type_name''"
    and p: "task ?p = JStr ''distinct''" "targetParam ?p = JStr ''type_name''"
    by (simp_all add: plan_eval)
  have c: "semanticCandidates ?e ?p = None"
    by (simp add: semanticCandidates_def plan_eval)
  have w: "whereClause_unified sample_meta ?r = ''urn = ?''"
    "whereClause_twoStage sample_meta ?p None = ''urn = ?''"
    by (simp_all add: plan_eval)
  have s: "\<And>ps. db_all ?e
        (''SELECT DISTINCT type_name FROM elements WHERE urn = ? AND type_name IS NOT NULL'') ps
      = Inr ?rows"
    "\<And>ps. db_all ?e
        (''SELECT DISTINCT type_name FROM elements WHERE urn = ? AND type_name IS NOT NULL LIMIT ?'')
        ps
      = Inr ?rows"
    by (simp_all add: sample_env_def categoriesSql_def sampleSql_unified_def
        sampleSql_twoStage_def SAMPLE_KEYS_def)
  have v: "distinctValues (JStr ''type_name'') ?rows = [''Door'', ''Door'']"
    by (simp add: distinctValues_def getProp_def norm_def js_or_def trim_def is_space_def
        ws_chars_def)
  have 1: "runQuery_unified ?e sample_meta ?r (JStr ''which types'')
      = Inr (DistinctResult (JStr ''type_name'') [''Door'', ''Door''])"
    using s v w by (simp add: runQuery_unified_distinct [OF r(1)] r handleDistinctTask_unified_def)
  have 2: "runQuery_twoStage ?e sample_meta ?p (JStr ''which types'')
      = Inr (DistinctResult (JStr ''type_name'') [''Door'', ''Door''])"
    using s v w c
    by (simp add: runQuery_twoStage_distinct [OF p(1)] p handleDistinctTask_twoStage_def)
  show ?thesis using 1 2 by simp
qed


text \<open>
  Claim C9. In the two-stage orchestrator the category of the plan is decided from the
  intent step's category and the heuristic hint. When the intent step returned no category
  (its category is absent or blank, so the trimmed text is empty) and the hint is a member
  of the model's discovered categories, the plan's category is the hint; when it returned
  no category and the hint is not a member, the plan has no category; when it returned a
  category, the plan's category is that category, trimmed, whatever the hint. The
  discovered categories are those of \<open>getMeta\<close>.
\<close>

theorem hint_backfill_guard:
  assumes "getMeta_twoStage e u = Inr m"
  shows "(norm (getProp planI ''category'') = [] \<and> includes_js (categories m) h \<longrightarrow>
            category (validatePlanParams (buildQueryPlan planI planP u
               (routeCategory planI h (categories m)))) = h)
       \<and> (norm (getProp planI ''category'') = [] \<and> \<not> includes_js (categories m) h \<longrightarrow>
            \<not> truthy (category (validatePlanParams (buildQueryPlan planI planP u
               (routeCategory planI h (categories m))))))
       \<and> (norm (getProp planI ''category'') \<noteq> [] \<longrightarrow>
            category (validatePlanParams (buildQueryPlan planI planP u
               (routeCategory planI h (categories m))))
              = JStr (norm (getProp planI ''category'')))"
  using routeCategory_cases [OF getMeta_twoStage_categories [OF assms]]
  by (simp add: validated_twoStage_category)

text \<open>
  On the sample model, whose only category is \<open>Doors\<close>: the intent step returns no
  category and the hint is \<open>Doors\<close>; it returns no category and the hint is \<open>Windows\<close>;
  it returns \<open>Walls\<close> and the hint is \<open>Doors\<close>.
\<close>

theorem hint_backfill_guard_witness:
  "getMeta_twoStage (sample_env [[(''props_flat'', JNull)], [(''props_flat'', JStr sample_blob)]]
        [] [] []) (JStr ''u1'')
      = Inr (sample_meta\<lparr>areaKeys := take 200 [''Floor Area'']\<rparr>)
   \<and> norm (getProp [(''task'', JStr ''count'')] ''category'') = []
   \<and> includes_js [''Doors''] (JStr ''Doors'')
   \<and> category (validatePlanParams (buildQueryPlan [(''task'', JStr ''count'')] [] (JStr ''u1'')
        (routeCategory [(''task'', JStr ''count'')] (JStr ''Doors'') [''Doors''])))
      = JStr ''Doors''
   \<and> \<not> includes_js [''Doors''] (JStr ''Windows'')
   \<and> \<not> truthy (category (validatePlanParams (buildQueryPlan [(''task'', JStr ''count'')] []
        (JStr ''u1'') (routeCategory [(''task'', JStr ''count'')] (JStr ''Windows'') [''Doors'']))))
   \<and> norm (getProp [(''task'', JStr ''count''), (''category'', JStr '' Walls'')] ''category'') \<noteq> []
   \<and> category (validatePlanParams (buildQueryPlan
        [(''task'', JStr ''count''), (''category'', JStr '' Walls'')] [] (JStr ''u1'')
        (routeCategory [(''task'', JStr ''count''), (''category'', JStr '' Walls'')]
           (JStr ''Doors'') [''Doors''])))
      = JStr ''Walls''"
proof -
  let ?e = "sample_env [[(''props_flat'', JNull)], [(''props_flat'', JStr sample_blob)]] [] [] []
      :: unit env"
  let ?m = "sample_meta\<lparr>areaKeys := take 200 [''Floor Area'']\<rparr>"
  let ?n = "[(''task'', JStr ''count'')]"
  let ?w = "[(''task'', JStr ''count''), (''category'', JStr '' Walls'')]"
  have g: "getMeta_twoStage ?e (JStr ''u1'') = Inr ?m"
    by (rule sample_getMeta_twoStage [OF sample_scan_twoStage_good])
  have c: "categories sample_meta = [''Doors'']"
    by (simp add: sample_meta_def)
  have n: "norm (getProp ?n ''category'') = []" "norm (getProp ?w ''category'') = ''Walls''"
    by (simp_all add: getProp_def norm_def js_or_def trim_def is_space_def ws_chars_def)
  have i: "includes_js [''Doors''] (JStr ''Doors'')" "\<not> includes_js [''Doors''] (JStr ''Windows'')"
    by (simp_all add: includes_js_def)
  note t1 = hint_backfill_guard [OF g, where planI = ?n and planP = "[]" and h = "JStr ''Doors''"]
  note t2 = hint_backfill_guard [OF g, where planI = ?n and planP = "[]" and h = "JStr ''Windows''"]
  note t3 = hint_backfill_guard [OF g, where planI = ?w and planP = "[]" and h = "JStr ''Doors''"]
  from t1 n i have 1: "category (validatePlanParams (buildQueryPlan ?n [] (JStr ''u1'')
        (routeCategory ?n (JStr ''Doors'') [''Doors''])))
      = JStr ''Doors''"
    by (simp add: c)
  from t2 n i have 2: "\<not> truthy (category (validatePlanParams (buildQueryPlan ?n [] (JStr ''u1'')
        (routeCategory ?n (JStr ''Windows'') [''Doors'']))))"
    by (simp add: c)
  from t3 n have 3: "category (validatePlanParams (buildQueryPlan ?w [] (JStr ''u1'')
        (routeCategory ?w (JStr ''Doors'') [''Doors''])))
      = JStr ''Walls''"
    by (simp add: c)
  show ?thesis
    using g n i 1 2 3 by simp
qed


text \<open>
  Claim C10. Every task value that is not one of the explicit cases of the \<open>switch\<close> goes
  to the list handler: in the two-stage variant everything but \<open>count\<close>, \<open>distinct\<close>,
  \<open>group_count\<close> and \<open>sum_area\<close> (so \<open>list\<close>, any other string or value, and
  \<open>sum_volume\<close>); in the unified variant everything but these four and \<open>sum_volume\<close>. The
  result of \<open>runQuery\<close> is then the result of the list handler on the compiled filter, so no
  task value produces an error of its own.
\<close>

theorem default_dispatch_list:
  "(task p \<notin> {JStr ''count'', JStr ''distinct'', JStr ''group_count'', JStr ''sum_area''} \<longrightarrow>
      runQuery_twoStage e m p q =
        handleListTask_twoStage e (whereClause_twoStage m p (semanticCandidates e p))
          (snd (whereClauses_twoStage m p (semanticCandidates e p)))
          (if isFinite (limit p) then limit p else DEFAULT_LIMIT))
 \<and> (task r \<notin> {JStr ''count'', JStr ''distinct'', JStr ''group_count'', JStr ''sum_area'',
                  JStr ''sum_volume''} \<longrightarrow>
      runQuery_unified e m r q =
        handleListTask_unified e (whereClause_unified m r) (snd (whereClauses_unified m r)))"
  by (simp add: runQuery_twoStage_def runQuery_unified_def Let_def)

text \<open>
  The task \<open>sum_volume\<close> in the two-stage variant and the task \<open>list\<close> in the unified one,
  on a store that returns one door for every task query.
\<close>

theorem default_dispatch_list_witness:
  "task (validatePlanParams (buildQueryPlan [(''task'', JStr ''sum_volume'')] [] (JStr ''u1'')
        JNull))
     \<notin> {JStr ''count'', JStr ''distinct'', JStr ''group_count'', JStr ''sum_area''}
   \<and> runQuery_twoStage (sample_env [] [[(''name'', JStr ''Door 1'')]] [] []) sample_meta
        (validatePlanParams (buildQueryPlan [(''task'', JStr ''sum_volume'')] [] (JStr ''u1'')
           JNull))
        (JStr ''total volume'')
      = Inr (ListResult [toDoc [(''name'', JStr ''Door 1'')]])
   \<and> task (validateAndBuildPlan [(''task'', JStr ''list'')] (JStr ''u1'') [''Doors''])
     \<notin> {JStr ''count'', JStr ''distinct'', JStr ''group_count'', JStr ''sum_area'',
         JStr ''sum_volume''}
   \<and> runQuery_unified (sample_env [] [[(''name'', JStr ''Door 1'')]] [] []) sample_meta
        (validateAndBuildPlan [(''task'', JStr ''list'')] (JStr ''u1'') [''Doors''])
        (JStr ''show the doors'')
      = Inr (ListResult [toDoc [(''name'', JStr ''Door 1'')]])"
proof -
  let ?rows = "[[(''name'', JStr ''Door 1'')]]"
  let ?e = "sample_env [] ?rows [] [] :: unit env"
  let ?p = "validatePlanParams (buildQueryPlan [(''task'', JStr ''sum_volume'')] [] (JStr ''u1'')
      JNull)"
  let ?r = "validateAndBuildPlan [(''task'', JStr ''list'')] (JStr ''u1'') [''Doors'']"
  have p: "task ?p = JStr ''sum_volume''" and r: "task ?r = JStr ''list''"
    by (simp_all add: plan_eval)
  have hp: "task ?p \<notin> {JStr ''count'', JStr ''distinct'', JStr ''group_count'', JStr ''sum_area''}"
    by (simp add: p)
  have hr: "task ?r \<notin> {JStr ''count'', JStr ''distinct'', JStr ''group_count'', JStr ''sum_area'',
      JStr ''sum_volume''}"
    by (simp add: r)
  have s: "\<And>w ps. db_all ?e (listSql w) ps = Inr ?rows"
    "\<And>w x ps. db_all ?e (listSql w @ x) ps = Inr ?rows"
    by (simp_all add: sample_env_def categoriesSql_def sampleSql_unified_def
        sampleSql_twoStage_def SAMPLE_KEYS_def listSql_def)
  note t = default_dispatch_list [where p = ?p and r = ?r and e = ?e and m = sample_meta]
  from t hp have 1: "runQuery_twoStage ?e sample_meta ?p (JStr ''total volume'')
      = handleListTask_twoStage ?e (whereClause_twoStage sample_meta ?p (semanticCandidates ?e ?p))
          (snd (whereClauses_twoStage sample_meta ?p (semanticCandidates ?e ?p)))
          (if isFinite (limit ?p) then limit ?p else DEFAULT_LIMIT)"
    by blast
  from t hr have 2: "runQuery_unified ?e sample_meta ?r (JStr ''show the doors'')
      = handleListTask_unified ?e (whereClause_unified sample_meta ?r)
          (snd (whereClauses_unified sample_meta ?r))"
    by blast
  have 3: "runQuery_twoStage ?e sample_meta ?p (JStr ''total volume'')
      = Inr (ListResult [toDoc [(''name'', JStr ''Door 1'')]])"
    unfolding 1 handleListTask_twoStage_def by (simp add: s del: append_assoc)
  have 4: "runQuery_unified ?e sample_meta ?r (JStr ''show the doors'')
      = Inr (ListResult [toDoc [(''name'', JStr ''Door 1'')]])"
    unfolding 2 handleListTask_unified_def by (simp add: s)
  show ?thesis
    using hp hr 3 4 by blast
qed


end
